theory Spec2Isabelle
  imports Main
begin

section \<open>JavaScript values\<close>

text \<open>
  The controllers receive a parsed JSON body. The preferences controller inspects its
  input dynamically (truthiness tests, optional chaining, comparisons with
  \<^verbatim>\<open>undefined\<close>), so that part of the body is kept as a JavaScript value.
  \<open>JDate\<close> stands for the result of \<^verbatim>\<open>new Date()\<close>.
\<close>

datatype jsval =
    JUndefined
  | JNull
  | JBool bool
  | JNum int
  | JStr string
  | JDate nat
  | JArr "jsval list"
  | JObj "(string \<times> jsval) list"

datatype js_error =
    TypeError
  | ValidationError "string list"
  | DuplicateKeyError string
  | StoreError string

text \<open>Truthiness, as used by \<^verbatim>\<open>if (x)\<close>, \<^verbatim>\<open>!x\<close> and \<^verbatim>\<open>x || y\<close>.\<close>

fun truthy :: "jsval \<Rightarrow> bool" where
  "truthy JUndefined = False"
| "truthy JNull = False"
| "truthy (JBool b) = b"
| "truthy (JNum n) = (n \<noteq> 0)"
| "truthy (JStr s) = (s \<noteq> [])"
| "truthy (JDate t) = True"
| "truthy (JArr xs) = True"
| "truthy (JObj kvs) = True"

text \<open>\<^verbatim>\<open>x || y\<close>\<close>

definition js_or :: "jsval \<Rightarrow> jsval \<Rightarrow> jsval" where
  "js_or x y = (if truthy x then x else y)"

text \<open>\<^verbatim>\<open>x !== undefined ? x : y\<close>\<close>

definition defined_or :: "jsval \<Rightarrow> jsval \<Rightarrow> jsval" where
  "defined_or x y = (if x \<noteq> JUndefined then x else y)"

text \<open>
  Reading a data property \<^verbatim>\<open>v.k\<close>: a TypeError on \<^verbatim>\<open>undefined\<close> and
  \<^verbatim>\<open>null\<close>, the own property of an object, \<^verbatim>\<open>undefined\<close> where the property is
  missing. The property names read by this program (name, description, icon, ...) are
  not built-in properties of strings, numbers, booleans, dates or arrays.
\<close>

fun getProp :: "jsval \<Rightarrow> string \<Rightarrow> js_error + jsval" where
  "getProp JUndefined k = Inl TypeError"
| "getProp JNull k = Inl TypeError"
| "getProp (JObj kvs) k = Inr (case map_of kvs k of None \<Rightarrow> JUndefined | Some v \<Rightarrow> v)"
| "getProp v k = Inr JUndefined"

definition ebind :: "'e + 'a \<Rightarrow> ('a \<Rightarrow> 'e + 'b) \<Rightarrow> 'e + 'b" where
  "ebind m f = (case m of Inl e \<Rightarrow> Inl e | Inr x \<Rightarrow> f x)"

fun mapE :: "('a \<Rightarrow> 'e + 'b) \<Rightarrow> 'a list \<Rightarrow> 'e + 'b list" where
  "mapE f [] = Inr []"
| "mapE f (x # xs) =
     (case f x of Inl e \<Rightarrow> Inl e
      | Inr y \<Rightarrow> (case mapE f xs of Inl e \<Rightarrow> Inl e | Inr ys \<Rightarrow> Inr (y # ys)))"

text \<open>
  \<^verbatim>\<open>xs.indexOf(x)\<close> and the duplicate filter
  \<^verbatim>\<open>xs.filter((x, index) => xs.indexOf(x) !== index)\<close>.
\<close>

fun indexOf_from :: "'a list \<Rightarrow> 'a \<Rightarrow> nat \<Rightarrow> int" where
  "indexOf_from [] x i = - 1"
| "indexOf_from (y # ys) x i = (if y = x then int i else indexOf_from ys x (Suc i))"

definition indexOf :: "'a list \<Rightarrow> 'a \<Rightarrow> int" where
  "indexOf xs x = indexOf_from xs x 0"

definition duplicates :: "'a list \<Rightarrow> 'a list" where
  "duplicates xs =
     map fst (filter (\<lambda>(x, i). indexOf xs x \<noteq> int i) (zip xs [0..<length xs]))"

text \<open>\<^verbatim>\<open>xs.join(', ')\<close>; an \<^verbatim>\<open>undefined\<close> element is rendered as the empty string.\<close>

fun join :: "string \<Rightarrow> string list \<Rightarrow> string" where
  "join sep [] = []"
| "join sep [x] = x"
| "join sep (x # y # ys) = x @ sep @ join sep (y # ys)"

definition join_keys :: "string option list \<Rightarrow> string" where
  "join_keys ks = join '', '' (map (\<lambda>k. case k of None \<Rightarrow> [] | Some s \<Rightarrow> s) ks)"


section \<open>Data model\<close>

text \<open>
  The Mongoose schemas of \<^verbatim>\<open>models/Business.js\<close> and \<^verbatim>\<open>models/User.js\<close>. Fields
  that the schema leaves optional are options. A preference element holds what the
  controller assigns: trimmed strings, and the caller's value or a default for the
  remaining fields. The stored document of a business may lack the path
  \<^verbatim>\<open>preferences\<close> (\<open>None\<close>); how such a document reads is \<open>read_preferences\<close>
  below.
\<close>

record category =
  c_name :: string
  c_description :: string
  c_icon :: string
  c_color :: string
  c_isActive :: jsval
  c_createdAt :: jsval

record unit_of_measure =
  um_name :: string
  um_abbreviation :: string
  um_type :: jsval
  um_isActive :: jsval
  um_createdAt :: jsval

record product_type =
  pt_name :: string
  pt_description :: string
  pt_requiresSerialNumber :: jsval
  pt_requiresExpiryDate :: jsval
  pt_trackInventory :: jsval
  pt_isActive :: jsval
  pt_createdAt :: jsval

record preferences =
  categories :: "category list"
  units :: "unit_of_measure list"
  productTypes :: "product_type list"

record address =
  a_street :: "string option"
  a_city :: "string option"
  a_state :: "string option"
  a_country :: "string option"
  a_postalCode :: "string option"

record business =
  b_id :: nat
  b_name :: string
  b_description :: "string option"
  b_industry :: string
  b_email :: "string option"
  b_phone :: "string option"
  b_website :: "string option"
  b_address :: address
  b_registrationNumber :: "string option"
  b_taxId :: "string option"
  b_currency :: string
  b_timezone :: string
  b_preferences :: "preferences option"
  b_owner :: nat
  b_isActive :: bool
  b_subscriptionStatus :: string
  b_subscriptionPlan :: string
  b_logo :: "string option"
  b_totalEmployees :: nat
  b_totalRevenue :: int
  b_createdAt :: "nat option"

record user =
  u_id :: nat
  u_firstName :: string
  u_lastName :: string
  u_email :: string
  u_password :: string
  u_phone :: "string option"
  u_business :: "nat option"
  u_role :: string
  u_isActive :: bool
  u_isEmailVerified :: bool
  u_lastLogin :: "nat option"
  u_resetPasswordToken :: "string option"
  u_resetPasswordExpire :: "nat option"
  u_createdAt :: "nat option"

text \<open>The two collections of the database.\<close>

record db =
  users :: "user list"
  businesses :: "business list"

text \<open>
  A document in memory: the field values together with Mongoose's bookkeeping, whether
  the document has never been saved (\<^verbatim>\<open>isNew\<close>) and which paths were modified since
  it was loaded or last saved (\<^verbatim>\<open>isModified(path)\<close>).
\<close>

record user_doc =
  ud_fields :: user
  ud_isNew :: bool
  ud_modified :: "string list"

record business_doc =
  bd_fields :: business
  bd_isNew :: bool

text \<open>
  What a request handler cannot decide by itself. First the string functions of the
  JavaScript runtime, \<^verbatim>\<open>String.prototype.trim\<close>, \<^verbatim>\<open>toLowerCase\<close> and
  \<^verbatim>\<open>toUpperCase\<close>: they work on all of Unicode, and the program is modelled for
  whatever functions the runtime provides. Then the clock, the generated ObjectIds, the
  bcrypt library (hash, compare, salt) and the answers of the store. A read, the
  \<open>k\<close>-th write of a request and the commit either succeed (\<open>None\<close>) or throw;
  \<open>validation_errors env k\<close> are the messages of schema validation for the \<open>k\<close>-th
  write (none when the document is valid). The validators of the schema and the unique
  indexes belong to the library and the database, so their verdicts are answers of the
  store and not computed here.
\<close>

record env =
  trim :: "string \<Rightarrow> string"
  toLowerCase :: "string \<Rightarrow> string"
  toUpperCase :: "string \<Rightarrow> string"
  now :: nat
  new_user_id :: nat
  new_business_id :: nat
  gen_salt :: string
  bcrypt_hash :: "string \<Rightarrow> string \<Rightarrow> string"
  bcrypt_compare :: "string \<Rightarrow> string \<Rightarrow> bool"
  read_error :: "js_error option"
  validation_errors :: "nat \<Rightarrow> string list"
  write_error :: "nat \<Rightarrow> js_error option"
  commit_error :: "js_error option"

datatype token = Token nat

text \<open>
  The value of \<^verbatim>\<open>user.business\<close> in a response: the id that was assigned to the path,
  or the document that \<^verbatim>\<open>populate\<close> has put in its place.
\<close>

datatype business_entry = BusinessId nat | BusinessDocument business

record user_profile =
  up_id :: nat
  up_firstName :: string
  up_lastName :: string
  up_email :: string
  up_phone :: "string option"
  up_role :: string
  up_business :: business_entry
  up_isActive :: bool
  up_isEmailVerified :: bool
  up_createdAt :: "nat option"

record business_profile =
  bp_id :: nat
  bp_name :: string
  bp_description :: "string option"
  bp_industry :: string
  bp_email :: "string option"
  bp_phone :: "string option"
  bp_website :: "string option"
  bp_address :: address
  bp_currency :: string
  bp_logo :: "string option"
  bp_subscriptionPlan :: string
  bp_createdAt :: "nat option"

record stats =
  totalCategories :: nat
  activeCategories :: nat
  totalUnits :: nat
  activeUnits :: nat
  totalProductTypes :: nat
  activeProductTypes :: nat

datatype reply_data =
    NoData
  | AuthData token user_profile business_profile
  | TokenData token
  | PreferencesData preferences stats
  | BusinessData business_profile

text \<open>
  A handler either sends a JSON response (status, success flag, message, error list,
  data) or passes the error to \<^verbatim>\<open>next(error)\<close>.
\<close>

datatype outcome =
    Json (status: nat) (success: bool) (message: string) (errors: "string list")
      (payload: reply_data)
  | Next js_error

definition failure :: "nat \<Rightarrow> string \<Rightarrow> outcome" where
  "failure code msg = Json code False msg [] NoData"


section \<open>String operations\<close>

text \<open>\<^verbatim>\<open>v.trim()\<close>: only a string has the method.\<close>

fun call_trim :: "env \<Rightarrow> jsval \<Rightarrow> js_error + string" where
  "call_trim env (JStr s) = Inr (trim env s)"
| "call_trim env v = Inl TypeError"

text \<open>\<^verbatim>\<open>v?.toLowerCase().trim()\<close>; \<open>None\<close> is the result \<^verbatim>\<open>undefined\<close>.\<close>

fun opt_lower_trim :: "env \<Rightarrow> jsval \<Rightarrow> js_error + string option" where
  "opt_lower_trim env JUndefined = Inr None"
| "opt_lower_trim env JNull = Inr None"
| "opt_lower_trim env (JStr s) = Inr (Some (trim env (toLowerCase env s)))"
| "opt_lower_trim env v = Inl TypeError"

text \<open>\<^verbatim>\<open>v?.toUpperCase().trim()\<close>\<close>

fun opt_upper_trim :: "env \<Rightarrow> jsval \<Rightarrow> js_error + string option" where
  "opt_upper_trim env JUndefined = Inr None"
| "opt_upper_trim env JNull = Inr None"
| "opt_upper_trim env (JStr s) = Inr (Some (trim env (toUpperCase env s)))"
| "opt_upper_trim env v = Inl TypeError"

text \<open>\<^verbatim>\<open>v.toUpperCase().trim()\<close>\<close>

fun call_upper_trim :: "env \<Rightarrow> jsval \<Rightarrow> js_error + string" where
  "call_upper_trim env (JStr s) = Inr (trim env (toUpperCase env s))"
| "call_upper_trim env v = Inl TypeError"

text \<open>\<^verbatim>\<open>v?.trim() || d\<close> for a string default \<open>d\<close>.\<close>

fun opt_trim_or :: "env \<Rightarrow> jsval \<Rightarrow> string \<Rightarrow> js_error + string" where
  "opt_trim_or env JUndefined d = Inr d"
| "opt_trim_or env JNull d = Inr d"
| "opt_trim_or env (JStr s) d = Inr (if trim env s = [] then d else trim env s)"
| "opt_trim_or env v d = Inl TypeError"

text \<open>
  The setters that the schemas declare for a string path. Mongoose applies them to a
  value that is assigned to the path of a document or given to a constructor, and to the
  value of the path in a query filter. An email is declared with \<^verbatim>\<open>lowercase: true\<close>
  and \<^verbatim>\<open>trim: true\<close>; names, descriptions, phone numbers and the other free texts
  with \<^verbatim>\<open>trim: true\<close>. Each of these setters converts a truthy string and returns a
  falsy one, the empty string, as it is. The setters of a path run from the last
  declared to the first: the email of an account, declared \<^verbatim>\<open>lowercase\<close> and then
  \<^verbatim>\<open>trim\<close>, is trimmed and then lower-cased; the email of a business, declared
  \<^verbatim>\<open>trim\<close> and then \<^verbatim>\<open>lowercase\<close>, is lower-cased and then trimmed.
\<close>

definition set_trim :: "env \<Rightarrow> string \<Rightarrow> string" where
  "set_trim env v = (if v \<noteq> [] then trim env v else v)"

definition set_lowercase :: "env \<Rightarrow> string \<Rightarrow> string" where
  "set_lowercase env v = (if v \<noteq> [] then toLowerCase env v else v)"

definition set_lowercase_trim :: "env \<Rightarrow> string \<Rightarrow> string" where
  "set_lowercase_trim env v = set_lowercase env (set_trim env v)"

definition set_trim_lowercase :: "env \<Rightarrow> string \<Rightarrow> string" where
  "set_trim_lowercase env v = set_trim env (set_lowercase env v)"


section \<open>The store\<close>

text \<open>
  Reads and writes of the two collections. A read looks a document up by a field; the
  email of the filter goes through the setters of the path before it is compared. A
  write first runs schema validation (unless the caller passes
  \<^verbatim>\<open>validateBeforeSave: false\<close>) and the pre-save hook of the model; a new
  document is then inserted, which the store refuses when the \<^verbatim>\<open>_id\<close> is taken, and
  a loaded document replaces the stored document with the same id.
\<close>

definition User_findOne :: "env \<Rightarrow> db \<Rightarrow> string \<Rightarrow> js_error + user option" where
  "User_findOne env store email =
     (case read_error env of
        Some e \<Rightarrow> Inl e
      | None \<Rightarrow> Inr (find (\<lambda>u. u_email u = set_lowercase_trim env email) (users store)))"

definition User_findById :: "env \<Rightarrow> db \<Rightarrow> nat \<Rightarrow> js_error + user option" where
  "User_findById env store i =
     (case read_error env of
        Some e \<Rightarrow> Inl e
      | None \<Rightarrow> Inr (find (\<lambda>u. u_id u = i) (users store)))"

definition Business_findById :: "env \<Rightarrow> db \<Rightarrow> nat \<Rightarrow> js_error + business option" where
  "Business_findById env store i =
     (case read_error env of
        Some e \<Rightarrow> Inl e
      | None \<Rightarrow> Inr (find (\<lambda>b. b_id b = i) (businesses store)))"

text \<open>\<^verbatim>\<open>.populate('business')\<close>: the referenced document, or null.\<close>

definition populate_business :: "db \<Rightarrow> user \<Rightarrow> business option" where
  "populate_business store u =
     (case u_business u of
        None \<Rightarrow> None
      | Some i \<Rightarrow> find (\<lambda>b. b_id b = i) (businesses store))"

text \<open>
  \<^verbatim>\<open>userSchema.pre('save')\<close>: the password is hashed with a fresh salt when, and only
  when, the path \<^verbatim>\<open>password\<close> is modified.
\<close>

definition user_pre_save :: "env \<Rightarrow> user_doc \<Rightarrow> user_doc" where
  "user_pre_save env d =
     (if ''password'' \<notin> set (ud_modified d) then d
      else d\<lparr>ud_fields := (ud_fields d)
              \<lparr>u_password := bcrypt_hash env (u_password (ud_fields d)) (gen_salt env)\<rparr>\<rparr>)"

definition stamp_user :: "env \<Rightarrow> user_doc \<Rightarrow> user_doc" where
  "stamp_user env d =
     (if ud_isNew d then d\<lparr>ud_fields := (ud_fields d)\<lparr>u_createdAt := Some (now env)\<rparr>\<rparr> else d)"

text \<open>
  Saving a loaded document sends the modified paths only: the stored document with the
  same id receives the values of these paths.
\<close>

definition copy_path :: "user \<Rightarrow> string \<Rightarrow> user \<Rightarrow> user" where
  "copy_path src p dst =
     (if p = ''firstName'' then dst\<lparr>u_firstName := u_firstName src\<rparr>
      else if p = ''lastName'' then dst\<lparr>u_lastName := u_lastName src\<rparr>
      else if p = ''email'' then dst\<lparr>u_email := u_email src\<rparr>
      else if p = ''password'' then dst\<lparr>u_password := u_password src\<rparr>
      else if p = ''phone'' then dst\<lparr>u_phone := u_phone src\<rparr>
      else if p = ''business'' then dst\<lparr>u_business := u_business src\<rparr>
      else if p = ''role'' then dst\<lparr>u_role := u_role src\<rparr>
      else if p = ''isActive'' then dst\<lparr>u_isActive := u_isActive src\<rparr>
      else if p = ''isEmailVerified'' then dst\<lparr>u_isEmailVerified := u_isEmailVerified src\<rparr>
      else if p = ''lastLogin'' then dst\<lparr>u_lastLogin := u_lastLogin src\<rparr>
      else if p = ''resetPasswordToken''
        then dst\<lparr>u_resetPasswordToken := u_resetPasswordToken src\<rparr>
      else if p = ''resetPasswordExpire''
        then dst\<lparr>u_resetPasswordExpire := u_resetPasswordExpire src\<rparr>
      else dst)"

definition apply_delta :: "user_doc \<Rightarrow> user \<Rightarrow> user" where
  "apply_delta d stored = foldr (copy_path (ud_fields d)) (ud_modified d) stored"

definition User_save ::
  "env \<Rightarrow> nat \<Rightarrow> bool \<Rightarrow> db \<Rightarrow> user_doc \<Rightarrow> js_error + (user_doc \<times> db)" where
  "User_save env k validateBeforeSave store d =
     (if validateBeforeSave \<and> validation_errors env k \<noteq> []
      then Inl (ValidationError (validation_errors env k))
      else
        let d1 = stamp_user env (user_pre_save env d) in
        (case write_error env k of
           Some e \<Rightarrow> Inl e
         | None \<Rightarrow>
             if ud_isNew d1
             then
               (if u_id (ud_fields d1) \<in> set (map u_id (users store))
                then Inl (DuplicateKeyError ''_id'')
                else Inr (d1\<lparr>ud_isNew := False, ud_modified := []\<rparr>,
                          store\<lparr>users := users store @ [ud_fields d1]\<rparr>))
             else
               Inr (d1\<lparr>ud_isNew := False, ud_modified := []\<rparr>,
                    store\<lparr>users :=
                      map (\<lambda>u. if u_id u = u_id (ud_fields d1) then apply_delta d1 u else u)
                        (users store)\<rparr>)))"

text \<open>
  The default bootstrap set of \<^verbatim>\<open>businessSchema.pre('save')\<close>. The literal of the
  source leaves \<^verbatim>\<open>isActive\<close> and \<^verbatim>\<open>createdAt\<close> to the schema defaults
  (\<^verbatim>\<open>true\<close> and \<^verbatim>\<open>Date.now\<close>). The icons, which are not ASCII, are carried as the
  bytes of the source file.
\<close>

definition default_categories :: "nat \<Rightarrow> category list" where
  "default_categories t =
     [\<lparr>c_name = ''Electronics'', c_description = ''Electronic devices and accessories'',
       c_icon = [CHR 0xF0, CHR 0x9F, CHR 0x92, CHR 0xBB], c_color = ''#3b82f6'',
       c_isActive = JBool True, c_createdAt = JDate t\<rparr>,
      \<lparr>c_name = ''Clothing'', c_description = ''Apparel and fashion items'',
       c_icon = [CHR 0xF0, CHR 0x9F, CHR 0x91, CHR 0x95], c_color = ''#ec4899'',
       c_isActive = JBool True, c_createdAt = JDate t\<rparr>,
      \<lparr>c_name = ''Food & Beverages'', c_description = ''Food items and drinks'',
       c_icon = [CHR 0xF0, CHR 0x9F, CHR 0x8D, CHR 0x94], c_color = ''#f59e0b'',
       c_isActive = JBool True, c_createdAt = JDate t\<rparr>]"

definition default_units :: "nat \<Rightarrow> unit_of_measure list" where
  "default_units t =
     [\<lparr>um_name = ''Piece'', um_abbreviation = ''PCS'', um_type = JStr ''quantity'',
       um_isActive = JBool True, um_createdAt = JDate t\<rparr>,
      \<lparr>um_name = ''Kilogram'', um_abbreviation = ''KG'', um_type = JStr ''weight'',
       um_isActive = JBool True, um_createdAt = JDate t\<rparr>,
      \<lparr>um_name = ''Liter'', um_abbreviation = ''L'', um_type = JStr ''volume'',
       um_isActive = JBool True, um_createdAt = JDate t\<rparr>,
      \<lparr>um_name = ''Dozen'', um_abbreviation = ''DZ'', um_type = JStr ''quantity'',
       um_isActive = JBool True, um_createdAt = JDate t\<rparr>]"

definition default_productTypes :: "nat \<Rightarrow> product_type list" where
  "default_productTypes t =
     [\<lparr>pt_name = ''Physical Product'', pt_description = ''Tangible goods that can be shipped'',
       pt_requiresSerialNumber = JBool False, pt_requiresExpiryDate = JBool False,
       pt_trackInventory = JBool True, pt_isActive = JBool True, pt_createdAt = JDate t\<rparr>,
      \<lparr>pt_name = ''Perishable'', pt_description = ''Products with expiry dates'',
       pt_requiresSerialNumber = JBool False, pt_requiresExpiryDate = JBool True,
       pt_trackInventory = JBool True, pt_isActive = JBool True, pt_createdAt = JDate t\<rparr>,
      \<lparr>pt_name = ''Service'', pt_description = ''Non-physical services'',
       pt_requiresSerialNumber = JBool False, pt_requiresExpiryDate = JBool False,
       pt_trackInventory = JBool False, pt_isActive = JBool True, pt_createdAt = JDate t\<rparr>]"

definition default_preferences :: "nat \<Rightarrow> preferences" where
  "default_preferences t =
     \<lparr>categories = default_categories t, units = default_units t,
      productTypes = default_productTypes t\<rparr>"

text \<open>
  \<^verbatim>\<open>business.preferences\<close> on a document: \<^verbatim>\<open>preferences\<close> is a nested path of the
  schema, which always reads as an object, and Mongoose gives every array path the
  implicit default \<^verbatim>\<open>[]\<close>. A document whose stored form lacks the path therefore reads
  as three empty arrays.
\<close>

definition read_preferences :: "business \<Rightarrow> preferences" where
  "read_preferences b =
     (case b_preferences b of
        None \<Rightarrow> \<lparr>categories = [], units = [], productTypes = []\<rparr>
      | Some p \<Rightarrow> p)"

text \<open>
  The guard of the hook is
  \<^verbatim>\<open>this.isNew && (!this.preferences || !this.preferences.categories)\<close>.
  An object is truthy in JavaScript, and so is an array, the empty array included; so
  both tests fail on a document.
\<close>

definition object_truthy :: "preferences \<Rightarrow> bool" where
  "object_truthy p = True"

definition array_truthy :: "'a list \<Rightarrow> bool" where
  "array_truthy xs = True"

definition business_pre_save :: "env \<Rightarrow> business_doc \<Rightarrow> business_doc" where
  "business_pre_save env d =
     (if bd_isNew d \<and>
         (\<not> object_truthy (read_preferences (bd_fields d)) \<or>
          \<not> array_truthy (categories (read_preferences (bd_fields d))))
      then d\<lparr>bd_fields := (bd_fields d)\<lparr>b_preferences := Some (default_preferences (now env))\<rparr>\<rparr>
      else d)"

definition stamp_business :: "env \<Rightarrow> business_doc \<Rightarrow> business_doc" where
  "stamp_business env d =
     (if bd_isNew d then d\<lparr>bd_fields := (bd_fields d)\<lparr>b_createdAt := Some (now env)\<rparr>\<rparr> else d)"

definition Business_save ::
  "env \<Rightarrow> nat \<Rightarrow> bool \<Rightarrow> db \<Rightarrow> business_doc \<Rightarrow> js_error + (business_doc \<times> db)" where
  "Business_save env k validateBeforeSave store d =
     (if validateBeforeSave \<and> validation_errors env k \<noteq> []
      then Inl (ValidationError (validation_errors env k))
      else
        let d1 = stamp_business env (business_pre_save env d) in
        (case write_error env k of
           Some e \<Rightarrow> Inl e
         | None \<Rightarrow>
             if bd_isNew d1
             then
               (if b_id (bd_fields d1) \<in> set (map b_id (businesses store))
                then Inl (DuplicateKeyError ''_id'')
                else Inr (d1\<lparr>bd_isNew := False\<rparr>,
                          store\<lparr>businesses := businesses store @ [bd_fields d1]\<rparr>))
             else
               Inr (d1\<lparr>bd_isNew := False\<rparr>,
                    store\<lparr>businesses :=
                      map (\<lambda>b. if b_id b = b_id (bd_fields d1) then bd_fields d1 else b)
                        (businesses store)\<rparr>)))"

text \<open>
  A transaction: the writes made with the session go to the session's view of the
  database; a commit makes that view the database, an abort discards it.
\<close>

record session =
  tx_view :: db

definition startTransaction :: "db \<Rightarrow> session" where
  "startTransaction store = \<lparr>tx_view = store\<rparr>"

definition commitTransaction :: "env \<Rightarrow> session \<Rightarrow> db \<Rightarrow> js_error + db" where
  "commitTransaction env s store =
     (case commit_error env of Some e \<Rightarrow> Inl e | None \<Rightarrow> Inr (tx_view s))"

definition abortTransaction :: "session \<Rightarrow> db \<Rightarrow> db" where
  "abortTransaction s store = store"


section \<open>Authentication controller\<close>

text \<open>
  The bodies of \<^verbatim>\<open>register\<close> and \<^verbatim>\<open>login\<close> carry strings; a field that is absent
  from the body is \<open>None\<close>. The field \<open>rr_role\<close> stands for a \<^verbatim>\<open>role\<close> entry of the
  body, which the controller never reads.
\<close>

record register_request =
  rr_firstName :: "string option"
  rr_lastName :: "string option"
  rr_email :: "string option"
  rr_password :: "string option"
  rr_phone :: "string option"
  rr_businessName :: "string option"
  rr_industry :: "string option"
  rr_businessEmail :: "string option"
  rr_businessPhone :: "string option"
  rr_role :: jsval

record login_request =
  lr_email :: "string option"
  lr_password :: "string option"

fun truthy_str :: "string option \<Rightarrow> bool" where
  "truthy_str None = False"
| "truthy_str (Some s) = (s \<noteq> [])"

text \<open>\<^verbatim>\<open>a || b\<close> on optional strings, and \<^verbatim>\<open>a || 'literal'\<close>.\<close>

definition or_str :: "string option \<Rightarrow> string option \<Rightarrow> string option" where
  "or_str a b = (if truthy_str a then a else b)"

definition or_default :: "string option \<Rightarrow> string \<Rightarrow> string" where
  "or_default a d = (case a of None \<Rightarrow> d | Some s \<Rightarrow> if s \<noteq> [] then s else d)"

definition generateToken :: "nat \<Rightarrow> token" where
  "generateToken i = Token i"

text \<open>
  \<^verbatim>\<open>toPublicProfile\<close> of an account. Its entry \<^verbatim>\<open>business\<close> is what the path holds
  in memory at the time of the call: \<^verbatim>\<open>register\<close> has assigned the id of the new
  business, \<^verbatim>\<open>login\<close> has populated the path with the document.
\<close>

definition user_toPublicProfile :: "user \<Rightarrow> business_entry \<Rightarrow> user_profile" where
  "user_toPublicProfile u business =
     \<lparr>up_id = u_id u, up_firstName = u_firstName u, up_lastName = u_lastName u,
      up_email = u_email u, up_phone = u_phone u, up_role = u_role u,
      up_business = business, up_isActive = u_isActive u,
      up_isEmailVerified = u_isEmailVerified u, up_createdAt = u_createdAt u\<rparr>"

definition business_toPublicProfile :: "business \<Rightarrow> business_profile" where
  "business_toPublicProfile b =
     \<lparr>bp_id = b_id b, bp_name = b_name b, bp_description = b_description b,
      bp_industry = b_industry b, bp_email = b_email b, bp_phone = b_phone b,
      bp_website = b_website b, bp_address = b_address b, bp_currency = b_currency b,
      bp_logo = b_logo b, bp_subscriptionPlan = b_subscriptionPlan b,
      bp_createdAt = b_createdAt b\<rparr>"

text \<open>
  \<^verbatim>\<open>new User({...})\<close> and \<^verbatim>\<open>new Business({...})\<close>: the given fields after the
  setters of their paths (names and phone numbers are trimmed, emails lower-cased and
  trimmed), the schema defaults for the others, a generated id. Mongoose gives every
  array path the implicit default \<^verbatim>\<open>[]\<close>; a Business constructed without preferences
  therefore holds three empty arrays.
\<close>

definition new_User ::
  "env \<Rightarrow> string \<Rightarrow> string \<Rightarrow> string \<Rightarrow> string \<Rightarrow> string option \<Rightarrow> string \<Rightarrow> user_doc" where
  "new_User env firstName lastName email password phone role =
     \<lparr>ud_fields =
        \<lparr>u_id = new_user_id env, u_firstName = set_trim env firstName,
         u_lastName = set_trim env lastName, u_email = set_lowercase_trim env email,
         u_password = password, u_phone = map_option (set_trim env) phone, u_business = None,
         u_role = role, u_isActive = True, u_isEmailVerified = False, u_lastLogin = None,
         u_resetPasswordToken = None, u_resetPasswordExpire = None, u_createdAt = None\<rparr>,
      ud_isNew = True,
      ud_modified = [''firstName'', ''lastName'', ''email'', ''password'', ''phone'', ''role'']\<rparr>"

definition new_Business ::
  "env \<Rightarrow> string \<Rightarrow> string \<Rightarrow> string option \<Rightarrow> string option \<Rightarrow> nat \<Rightarrow> business_doc" where
  "new_Business env name industry email phone owner =
     \<lparr>bd_fields =
        \<lparr>b_id = new_business_id env, b_name = set_trim env name, b_description = None,
         b_industry = industry, b_email = map_option (set_trim_lowercase env) email,
         b_phone = map_option (set_trim env) phone, b_website = None,
         b_address = \<lparr>a_street = None, a_city = None, a_state = None,
                      a_country = Some ''Nigeria'', a_postalCode = None\<rparr>,
         b_registrationNumber = None, b_taxId = None, b_currency = ''NGN'',
         b_timezone = ''Africa/Lagos'',
         b_preferences = Some \<lparr>categories = [], units = [], productTypes = []\<rparr>,
         b_owner = owner, b_isActive = True, b_subscriptionStatus = ''trial'',
         b_subscriptionPlan = ''free'', b_logo = None, b_totalEmployees = 1,
         b_totalRevenue = 0, b_createdAt = None\<rparr>,
      bd_isNew = True\<rparr>"

text \<open>Assignments to a document mark the path as modified.\<close>

definition set_business :: "nat \<Rightarrow> user_doc \<Rightarrow> user_doc" where
  "set_business i d =
     d\<lparr>ud_fields := (ud_fields d)\<lparr>u_business := Some i\<rparr>,
       ud_modified := ''business'' # ud_modified d\<rparr>"

definition set_lastLogin :: "nat \<Rightarrow> user_doc \<Rightarrow> user_doc" where
  "set_lastLogin t d =
     d\<lparr>ud_fields := (ud_fields d)\<lparr>u_lastLogin := Some t\<rparr>,
       ud_modified := ''lastLogin'' # ud_modified d\<rparr>"

definition set_password :: "string \<Rightarrow> user_doc \<Rightarrow> user_doc" where
  "set_password p d =
     d\<lparr>ud_fields := (ud_fields d)\<lparr>u_password := p\<rparr>,
       ud_modified := ''password'' # ud_modified d\<rparr>"

definition missing_fields_message :: string where
  "missing_fields_message =
     ''Please provide all required fields: firstName, lastName, email, password, businessName''"

text \<open>The \<^verbatim>\<open>catch\<close> block of \<^verbatim>\<open>register\<close>, after the transaction is aborted.\<close>

definition register_catch :: "js_error \<Rightarrow> outcome" where
  "register_catch e =
     (case e of
        ValidationError msgs \<Rightarrow> Json 400 False ''Validation error'' msgs NoData
      | DuplicateKeyError field \<Rightarrow>
          failure 400 (''A user with this '' @ field @ '' already exists'')
      | _ \<Rightarrow> Next e)"

text \<open>The \<^verbatim>\<open>try\<close> block of \<^verbatim>\<open>register\<close> once the required fields are present.\<close>

definition register_steps ::
  "env \<Rightarrow> db \<Rightarrow> session \<Rightarrow> register_request \<Rightarrow>
   string \<Rightarrow> string \<Rightarrow> string \<Rightarrow> string \<Rightarrow> string \<Rightarrow> outcome \<times> db" where
  "register_steps env store s req firstName lastName email password businessName =
     (case User_findOne env store email of
        Inl e \<Rightarrow> (register_catch e, abortTransaction s store)
      | Inr (Some existingUser) \<Rightarrow>
          (failure 400 ''User with this email already exists'', abortTransaction s store)
      | Inr None \<Rightarrow>
          let tempUser = new_User env firstName lastName email password (rr_phone req) ''owner''
          in
          (case User_save env 0 False (tx_view s) tempUser of
             Inl e \<Rightarrow> (register_catch e, abortTransaction s store)
           | Inr (tempUser1, view1) \<Rightarrow>
               let business =
                     new_Business env businessName (or_default (rr_industry req) ''other'')
                       (or_str (rr_businessEmail req) (Some email))
                       (or_str (rr_businessPhone req) (rr_phone req))
                       (u_id (ud_fields tempUser1))
               in
               (case Business_save env 1 True view1 business of
                  Inl e \<Rightarrow> (register_catch e, abortTransaction s store)
                | Inr (business1, view2) \<Rightarrow>
                    let tempUser2 =
                          set_lastLogin (now env)
                            (set_business (b_id (bd_fields business1)) tempUser1)
                    in
                    (case User_save env 2 True view2 tempUser2 of
                       Inl e \<Rightarrow> (register_catch e, abortTransaction s store)
                     | Inr (tempUser3, view3) \<Rightarrow>
                         (case commitTransaction env (s\<lparr>tx_view := view3\<rparr>) store of
                            Inl e \<Rightarrow> (register_catch e, abortTransaction s store)
                          | Inr store' \<Rightarrow>
                              (Json 201 True ''Registration successful'' []
                                 (AuthData (generateToken (u_id (ud_fields tempUser3)))
                                    (user_toPublicProfile (ud_fields tempUser3)
                                       (BusinessId (b_id (bd_fields business1))))
                                    (business_toPublicProfile (bd_fields business1))),
                               store'))))))"

definition register :: "env \<Rightarrow> db \<Rightarrow> register_request \<Rightarrow> outcome \<times> db" where
  "register env store req =
     (let s = startTransaction store;
          missing = (failure 400 missing_fields_message, abortTransaction s store)
      in
      (case rr_firstName req of None \<Rightarrow> missing | Some firstName \<Rightarrow>
      (case rr_lastName req of None \<Rightarrow> missing | Some lastName \<Rightarrow>
      (case rr_email req of None \<Rightarrow> missing | Some email \<Rightarrow>
      (case rr_password req of None \<Rightarrow> missing | Some password \<Rightarrow>
      (case rr_businessName req of None \<Rightarrow> missing | Some businessName \<Rightarrow>
          if firstName = [] \<or> lastName = [] \<or> email = [] \<or> password = [] \<or> businessName = []
          then missing
          else register_steps env store s req firstName lastName email password
                 businessName))))))"

definition login_steps :: "env \<Rightarrow> db \<Rightarrow> string \<Rightarrow> string \<Rightarrow> outcome \<times> db" where
  "login_steps env store email password =
     (case User_findOne env store email of
        Inl e \<Rightarrow> (Next e, store)
      | Inr None \<Rightarrow> (failure 401 ''Invalid credentials'', store)
      | Inr (Some user) \<Rightarrow>
          if \<not> u_isActive user
          then (failure 401 ''Your account has been deactivated. Please contact support.'',
                store)
          else if \<not> bcrypt_compare env password (u_password user)
          then (failure 401 ''Invalid credentials'', store)
          else
            (case populate_business store user of
               None \<Rightarrow>
                 (failure 403
                    ''No business associated with this account. Please contact support.'',
                  store)
             | Some business \<Rightarrow>
                 if \<not> b_isActive business
                 then (failure 403
                         ''Your business account is not active. Please contact support.'',
                       store)
                 else
                   let token = generateToken (u_id user);
                       doc = set_lastLogin (now env)
                               \<lparr>ud_fields = user, ud_isNew = False, ud_modified = []\<rparr>
                   in
                   (case User_save env 0 True store doc of
                      Inl e \<Rightarrow> (Next e, store)
                    | Inr (doc1, store') \<Rightarrow>
                        (Json 200 True ''Login successful'' []
                           (AuthData token
                              (user_toPublicProfile (ud_fields doc1) (BusinessDocument business))
                              (business_toPublicProfile business)),
                         store'))))"

definition login :: "env \<Rightarrow> db \<Rightarrow> login_request \<Rightarrow> outcome \<times> db" where
  "login env store req =
     (let missing = (failure 400 ''Please provide email and password'', store) in
      (case lr_email req of None \<Rightarrow> missing | Some email \<Rightarrow>
      (case lr_password req of None \<Rightarrow> missing | Some password \<Rightarrow>
          if email = [] \<or> password = [] then missing
          else login_steps env store email password)))"

text \<open>
  \<^verbatim>\<open>updatePassword\<close>. \<^verbatim>\<open>req.user\<close> is the account that the access guard has
  attached to the request; the body carries the current and the new password.
\<close>

record password_request =
  pw_user :: nat
  pw_currentPassword :: "string option"
  pw_newPassword :: "string option"

definition updatePassword_steps :: "env \<Rightarrow> db \<Rightarrow> nat \<Rightarrow> string \<Rightarrow> string \<Rightarrow> outcome \<times> db" where
  "updatePassword_steps env store i currentPassword newPassword =
     (if length newPassword < 6
      then (failure 400 ''New password must be at least 6 characters long'', store)
      else
        (case User_findById env store i of
           Inl e \<Rightarrow> (Next e, store)
         | Inr None \<Rightarrow> (failure 404 ''User not found'', store)
         | Inr (Some user) \<Rightarrow>
             if \<not> bcrypt_compare env currentPassword (u_password user)
             then (failure 401 ''Current password is incorrect'', store)
             else
               let doc = set_password newPassword
                           \<lparr>ud_fields = user, ud_isNew = False, ud_modified = []\<rparr>
               in
               (case User_save env 0 True store doc of
                  Inl e \<Rightarrow> (Next e, store)
                | Inr (doc1, store') \<Rightarrow>
                    (Json 200 True ''Password updated successfully'' []
                       (TokenData (generateToken (u_id (ud_fields doc1)))),
                     store'))))"

definition updatePassword :: "env \<Rightarrow> db \<Rightarrow> password_request \<Rightarrow> outcome \<times> db" where
  "updatePassword env store req =
     (let missing = (failure 400 ''Please provide current password and new password'', store)
      in
      (case pw_currentPassword req of None \<Rightarrow> missing | Some currentPassword \<Rightarrow>
      (case pw_newPassword req of None \<Rightarrow> missing | Some newPassword \<Rightarrow>
          if currentPassword = [] \<or> newPassword = [] then missing
          else updatePassword_steps env store (pw_user req) currentPassword newPassword)))"

section \<open>Business controller\<close>

text \<open>
  \<^verbatim>\<open>req.user.business\<close> is the business populated by the access guard (null when
  the account has none); the three collections are the values found in the body.
\<close>

record preferences_request =
  pr_business :: "nat option"
  pr_categories :: jsval
  pr_units :: jsval
  pr_productTypes :: jsval

text \<open>The normalized uniqueness keys computed by the duplicate checks.\<close>

definition categoryKey :: "env \<Rightarrow> jsval \<Rightarrow> js_error + string option" where
  "categoryKey env c = ebind (getProp c ''name'') (opt_lower_trim env)"

definition unitKey :: "env \<Rightarrow> jsval \<Rightarrow> js_error + string option" where
  "unitKey env u = ebind (getProp u ''abbreviation'') (opt_upper_trim env)"

text \<open>\<^verbatim>\<open>!x.k || x.k.trim() === ''\<close>\<close>

definition blank_field :: "env \<Rightarrow> jsval \<Rightarrow> string \<Rightarrow> js_error + bool" where
  "blank_field env x k =
     ebind (getProp x k) (\<lambda>v.
       if \<not> truthy v then Inr True
       else ebind (call_trim env v) (\<lambda>t. Inr (t = [])))"

text \<open>
  The validation loops: the message of the first element that fails, if any.
\<close>

fun first_invalid :: "(jsval \<Rightarrow> js_error + string option) \<Rightarrow> jsval list \<Rightarrow> js_error + string option" where
  "first_invalid chk [] = Inr None"
| "first_invalid chk (x # xs) =
     (case chk x of
        Inl e \<Rightarrow> Inl e
      | Inr (Some m) \<Rightarrow> Inr (Some m)
      | Inr None \<Rightarrow> first_invalid chk xs)"

definition check_category :: "env \<Rightarrow> jsval \<Rightarrow> js_error + string option" where
  "check_category env c =
     ebind (blank_field env c ''name'') (\<lambda>blank.
       Inr (if blank then Some ''Each category must have a name'' else None))"

definition check_unit :: "env \<Rightarrow> jsval \<Rightarrow> js_error + string option" where
  "check_unit env u =
     ebind (blank_field env u ''name'') (\<lambda>blank.
       if blank then Inr (Some ''Each unit must have a name'')
       else ebind (blank_field env u ''abbreviation'') (\<lambda>blank'.
         Inr (if blank' then Some ''Each unit must have an abbreviation'' else None)))"

definition check_productType :: "env \<Rightarrow> jsval \<Rightarrow> js_error + string option" where
  "check_productType env pt =
     ebind (blank_field env pt ''name'') (\<lambda>blank.
       Inr (if blank then Some ''Each product type must have a name'' else None))"

text \<open>
  The element builders of the three \<^verbatim>\<open>map\<close> calls; \<^verbatim>\<open>new Date()\<close> is the clock
  of the environment. The default icon is the byte sequence of the string literal in the
  source.
\<close>

definition default_icon :: string where
  "default_icon =
     [CHR 0xC3, CHR 0xB0, CHR 0xC5, CHR 0xB8, CHR 0xE2, CHR 0x80, CHR 0x9C, CHR 0xC2, CHR 0xA6]"

definition build_category :: "env \<Rightarrow> jsval \<Rightarrow> js_error + category" where
  "build_category env cat =
     ebind (getProp cat ''name'') (\<lambda>n. ebind (call_trim env n) (\<lambda>name.
     ebind (getProp cat ''description'') (\<lambda>d. ebind (opt_trim_or env d []) (\<lambda>description.
     ebind (getProp cat ''icon'') (\<lambda>i. ebind (opt_trim_or env i default_icon) (\<lambda>icon.
     ebind (getProp cat ''color'') (\<lambda>c. ebind (opt_trim_or env c ''#6366f1'') (\<lambda>color.
     ebind (getProp cat ''isActive'') (\<lambda>isActive.
     ebind (getProp cat ''createdAt'') (\<lambda>createdAt.
       Inr \<lparr>c_name = name, c_description = description, c_icon = icon, c_color = color,
            c_isActive = defined_or isActive (JBool True),
            c_createdAt = js_or createdAt (JDate (now env))\<rparr>))))))))))"

definition build_unit :: "env \<Rightarrow> jsval \<Rightarrow> js_error + unit_of_measure" where
  "build_unit env unit =
     ebind (getProp unit ''name'') (\<lambda>n. ebind (call_trim env n) (\<lambda>name.
     ebind (getProp unit ''abbreviation'') (\<lambda>a. ebind (call_upper_trim env a) (\<lambda>abbreviation.
     ebind (getProp unit ''type'') (\<lambda>ty.
     ebind (getProp unit ''isActive'') (\<lambda>isActive.
     ebind (getProp unit ''createdAt'') (\<lambda>createdAt.
       Inr \<lparr>um_name = name, um_abbreviation = abbreviation,
            um_type = js_or ty (JStr ''quantity''),
            um_isActive = defined_or isActive (JBool True),
            um_createdAt = js_or createdAt (JDate (now env))\<rparr>)))))))"

definition build_productType :: "env \<Rightarrow> jsval \<Rightarrow> js_error + product_type" where
  "build_productType env pt =
     ebind (getProp pt ''name'') (\<lambda>n. ebind (call_trim env n) (\<lambda>name.
     ebind (getProp pt ''description'') (\<lambda>d. ebind (opt_trim_or env d []) (\<lambda>description.
     ebind (getProp pt ''requiresSerialNumber'') (\<lambda>requiresSerialNumber.
     ebind (getProp pt ''requiresExpiryDate'') (\<lambda>requiresExpiryDate.
     ebind (getProp pt ''trackInventory'') (\<lambda>trackInventory.
     ebind (getProp pt ''isActive'') (\<lambda>isActive.
     ebind (getProp pt ''createdAt'') (\<lambda>createdAt.
       Inr \<lparr>pt_name = name, pt_description = description,
            pt_requiresSerialNumber = js_or requiresSerialNumber (JBool False),
            pt_requiresExpiryDate = js_or requiresExpiryDate (JBool False),
            pt_trackInventory = defined_or trackInventory (JBool True),
            pt_isActive = defined_or isActive (JBool True),
            pt_createdAt = js_or createdAt (JDate (now env))\<rparr>)))))))))"

text \<open>
  The treatment of one supplied collection: type check, duplicate check, validation
  loop, construction of the new elements. \<open>Inl\<close> is the response of an early
  \<^verbatim>\<open>return\<close> (or the thrown error), \<open>Inr\<close> the new collection.
\<close>

definition process_collection ::
  "string \<Rightarrow> string \<Rightarrow> (jsval \<Rightarrow> js_error + string option) \<Rightarrow>
   (jsval \<Rightarrow> js_error + string option) \<Rightarrow> (jsval \<Rightarrow> js_error + 'a) \<Rightarrow> jsval \<Rightarrow>
   outcome + 'a list" where
  "process_collection not_array_msg duplicate_msg key chk build v =
     (case v of
        JArr xs \<Rightarrow>
          (case mapE key xs of
             Inl e \<Rightarrow> Inl (Next e)
           | Inr keys \<Rightarrow>
               if length (duplicates keys) > 0
               then Inl (failure 400 (duplicate_msg @ join_keys (duplicates keys)))
               else
                 (case first_invalid chk xs of
                    Inl e \<Rightarrow> Inl (Next e)
                  | Inr (Some m) \<Rightarrow> Inl (failure 400 m)
                  | Inr None \<Rightarrow>
                      (case mapE build xs of
                         Inl e \<Rightarrow> Inl (Next e)
                       | Inr ys \<Rightarrow> Inr ys)))
      | _ \<Rightarrow> Inl (failure 400 not_array_msg))"

definition process_categories :: "env \<Rightarrow> jsval \<Rightarrow> outcome + category list" where
  "process_categories env v =
     process_collection ''Categories must be an array'' ''Duplicate category names found: ''
       (categoryKey env) (check_category env) (build_category env) v"

definition process_units :: "env \<Rightarrow> jsval \<Rightarrow> outcome + unit_of_measure list" where
  "process_units env v =
     process_collection ''Units must be an array'' ''Duplicate unit abbreviations found: ''
       (unitKey env) (check_unit env) (build_unit env) v"

definition process_productTypes :: "env \<Rightarrow> jsval \<Rightarrow> outcome + product_type list" where
  "process_productTypes env v =
     process_collection ''Product types must be an array''
       ''Duplicate product type names found: ''
       (categoryKey env) (check_productType env) (build_productType env) v"

text \<open>
  The three \<^verbatim>\<open>if (collection) { ... }\<close> blocks: a falsy value leaves the business as
  it is; otherwise the new collection is assigned to its path of
  \<^verbatim>\<open>business.preferences\<close>.
\<close>

definition update_categories :: "env \<Rightarrow> jsval \<Rightarrow> business \<Rightarrow> outcome + business" where
  "update_categories env v b =
     (if \<not> truthy v then Inr b
      else
        (case process_categories env v of
           Inl r \<Rightarrow> Inl r
         | Inr cs \<Rightarrow>
             Inr (b\<lparr>b_preferences := Some ((read_preferences b)\<lparr>categories := cs\<rparr>)\<rparr>)))"

definition update_units :: "env \<Rightarrow> jsval \<Rightarrow> business \<Rightarrow> outcome + business" where
  "update_units env v b =
     (if \<not> truthy v then Inr b
      else
        (case process_units env v of
           Inl r \<Rightarrow> Inl r
         | Inr us \<Rightarrow>
             Inr (b\<lparr>b_preferences := Some ((read_preferences b)\<lparr>units := us\<rparr>)\<rparr>)))"

definition update_productTypes :: "env \<Rightarrow> jsval \<Rightarrow> business \<Rightarrow> outcome + business" where
  "update_productTypes env v b =
     (if \<not> truthy v then Inr b
      else
        (case process_productTypes env v of
           Inl r \<Rightarrow> Inl r
         | Inr ts \<Rightarrow>
             Inr (b\<lparr>b_preferences := Some ((read_preferences b)\<lparr>productTypes := ts\<rparr>)\<rparr>)))"

text \<open>
  The statistics of the response are computed from the document after the assignments.
  \<^verbatim>\<open>isActive\<close> is a Boolean path: an assigned value reads as its cast, which is
  \<^verbatim>\<open>true\<close> for \<^verbatim>\<open>true\<close>, \<^verbatim>\<open>'true'\<close>, \<^verbatim>\<open>1\<close>, \<^verbatim>\<open>'1'\<close> and \<^verbatim>\<open>'yes'\<close>. (A
  value that cannot be cast makes the validation of the save fail.)
\<close>

definition cast_true :: "jsval \<Rightarrow> bool" where
  "cast_true v = (v \<in> set [JBool True, JStr ''true'', JNum 1, JStr ''1'', JStr ''yes''])"

definition compute_stats :: "preferences \<Rightarrow> stats" where
  "compute_stats p =
     \<lparr>totalCategories = length (categories p),
      activeCategories = length (filter (\<lambda>c. cast_true (c_isActive c)) (categories p)),
      totalUnits = length (units p),
      activeUnits = length (filter (\<lambda>u. cast_true (um_isActive u)) (units p)),
      totalProductTypes = length (productTypes p),
      activeProductTypes = length (filter (\<lambda>t. cast_true (pt_isActive t)) (productTypes p))\<rparr>"

definition updatePreferences :: "env \<Rightarrow> db \<Rightarrow> preferences_request \<Rightarrow> outcome \<times> db" where
  "updatePreferences env store req =
     (case pr_business req of
        None \<Rightarrow> (Next TypeError, store)
      | Some bid \<Rightarrow>
          (case Business_findById env store bid of
             Inl e \<Rightarrow> (Next e, store)
           | Inr None \<Rightarrow> (failure 404 ''Business not found'', store)
           | Inr (Some business) \<Rightarrow>
               if \<not> truthy (pr_categories req) \<and> \<not> truthy (pr_units req)
                  \<and> \<not> truthy (pr_productTypes req)
               then (failure 400
                 ''At least one preference field (categories, units, or productTypes) must be provided'',
                 store)
               else
                 (case update_categories env (pr_categories req) business of
                    Inl r \<Rightarrow> (r, store)
                  | Inr b1 \<Rightarrow>
                 (case update_units env (pr_units req) b1 of
                    Inl r \<Rightarrow> (r, store)
                  | Inr b2 \<Rightarrow>
                 (case update_productTypes env (pr_productTypes req) b2 of
                    Inl r \<Rightarrow> (r, store)
                  | Inr b3 \<Rightarrow>
                 (case Business_save env 0 True store \<lparr>bd_fields = b3, bd_isNew = False\<rparr> of
                    Inl e \<Rightarrow> (Next e, store)
                  | Inr (saved, store') \<Rightarrow>
                      (Json 200 True ''Preferences updated successfully'' []
                         (PreferencesData (read_preferences (bd_fields saved))
                            (compute_stats (read_preferences (bd_fields saved)))),
                       store')))))))"

text \<open>
  \<^verbatim>\<open>updateProfile\<close>. A field of the body is \<open>None\<close> when it is absent
  (\<^verbatim>\<open>undefined\<close>); the address of the body is a partial address whose absent
  entries are \<open>None\<close>.
\<close>

record profile_request =
  pf_business :: "nat option"
  pf_name :: "string option"
  pf_description :: "string option"
  pf_industry :: "string option"
  pf_email :: "string option"
  pf_phone :: "string option"
  pf_website :: "string option"
  pf_address :: "address option"
  pf_currency :: "string option"
  pf_timezone :: "string option"
  pf_registrationNumber :: "string option"
  pf_taxId :: "string option"

text \<open>
  \<^verbatim>\<open>{ ...business.address, ...address }\<close>, and the setters of the five paths of an
  address, which are applied when the object is assigned.
\<close>

definition spread_address :: "address \<Rightarrow> address \<Rightarrow> address" where
  "spread_address old new =
     \<lparr>a_street = (case a_street new of None \<Rightarrow> a_street old | Some v \<Rightarrow> Some v),
      a_city = (case a_city new of None \<Rightarrow> a_city old | Some v \<Rightarrow> Some v),
      a_state = (case a_state new of None \<Rightarrow> a_state old | Some v \<Rightarrow> Some v),
      a_country = (case a_country new of None \<Rightarrow> a_country old | Some v \<Rightarrow> Some v),
      a_postalCode = (case a_postalCode new of None \<Rightarrow> a_postalCode old | Some v \<Rightarrow> Some v)\<rparr>"

definition set_address :: "env \<Rightarrow> address \<Rightarrow> address" where
  "set_address env a =
     \<lparr>a_street = map_option (set_trim env) (a_street a),
      a_city = map_option (set_trim env) (a_city a),
      a_state = map_option (set_trim env) (a_state a),
      a_country = map_option (set_trim env) (a_country a),
      a_postalCode = map_option (set_trim env) (a_postalCode a)\<rparr>"

text \<open>
  \<^verbatim>\<open>if (x) business.f = x\<close> and \<^verbatim>\<open>if (x !== undefined) business.f = x\<close>: the
  assignment \<open>assign\<close> is made when the value is truthy, respectively present.
\<close>

definition if_truthy ::
  "string option \<Rightarrow> (string \<Rightarrow> business \<Rightarrow> business) \<Rightarrow> business \<Rightarrow> business" where
  "if_truthy x assign b =
     (case x of None \<Rightarrow> b | Some v \<Rightarrow> if v \<noteq> [] then assign v b else b)"

definition if_defined ::
  "'a option \<Rightarrow> ('a \<Rightarrow> business \<Rightarrow> business) \<Rightarrow> business \<Rightarrow> business" where
  "if_defined x assign b = (case x of None \<Rightarrow> b | Some v \<Rightarrow> assign v b)"

text \<open>
  The eleven conditional assignments, in the order of the source, each value going
  through the setters of its path (industry, currency and time zone have none). An
  address of the body is an object, hence truthy whenever it is present.
\<close>

definition assign_profile :: "env \<Rightarrow> profile_request \<Rightarrow> business \<Rightarrow> business" where
  "assign_profile env req b0 =
     (let b1 = if_truthy (pf_name req) (\<lambda>v b. b\<lparr>b_name := set_trim env v\<rparr>) b0;
          b2 = if_defined (pf_description req)
                 (\<lambda>v b. b\<lparr>b_description := Some (set_trim env v)\<rparr>) b1;
          b3 = if_truthy (pf_industry req) (\<lambda>v b. b\<lparr>b_industry := v\<rparr>) b2;
          b4 = if_truthy (pf_email req)
                 (\<lambda>v b. b\<lparr>b_email := Some (set_trim_lowercase env v)\<rparr>) b3;
          b5 = if_defined (pf_phone req) (\<lambda>v b. b\<lparr>b_phone := Some (set_trim env v)\<rparr>) b4;
          b6 = if_defined (pf_website req) (\<lambda>v b. b\<lparr>b_website := Some (set_trim env v)\<rparr>) b5;
          b7 = if_defined (pf_address req)
                 (\<lambda>a b. b\<lparr>b_address := set_address env (spread_address (b_address b) a)\<rparr>) b6;
          b8 = if_truthy (pf_currency req) (\<lambda>v b. b\<lparr>b_currency := v\<rparr>) b7;
          b9 = if_truthy (pf_timezone req) (\<lambda>v b. b\<lparr>b_timezone := v\<rparr>) b8;
          b10 = if_defined (pf_registrationNumber req)
                  (\<lambda>v b. b\<lparr>b_registrationNumber := Some (set_trim env v)\<rparr>) b9;
          b11 = if_defined (pf_taxId req) (\<lambda>v b. b\<lparr>b_taxId := Some (set_trim env v)\<rparr>) b10
      in b11)"

definition updateProfile :: "env \<Rightarrow> db \<Rightarrow> profile_request \<Rightarrow> outcome \<times> db" where
  "updateProfile env store req =
     (case pf_business req of
        None \<Rightarrow> (Next TypeError, store)
      | Some bid \<Rightarrow>
          (case Business_findById env store bid of
             Inl e \<Rightarrow> (Next e, store)
           | Inr None \<Rightarrow> (failure 404 ''Business not found'', store)
           | Inr (Some business) \<Rightarrow>
               (case Business_save env 0 True store
                       \<lparr>bd_fields = assign_profile env req business, bd_isNew = False\<rparr> of
                  Inl e \<Rightarrow> (Next e, store)
                | Inr (saved, store') \<Rightarrow>
                    (Json 200 True ''Business profile updated successfully'' []
                       (BusinessData (business_toPublicProfile (bd_fields saved))),
                     store'))))"

text \<open>The business stored under an id.\<close>

definition stored_business :: "db \<Rightarrow> nat \<Rightarrow> business option" where
  "stored_business store i = find (\<lambda>b. b_id b = i) (businesses store)"

section \<open>Notions used in the properties\<close>

fun is_success :: "outcome \<Rightarrow> bool" where
  "is_success (Json code ok msg errs d) = ok"
| "is_success (Next e) = False"

text \<open>
  No operation of the store fails during a registration: the lookup, the three writes
  (the first one is not validated), the two validations and the commit.
\<close>

definition no_store_failure :: "env \<Rightarrow> bool" where
  "no_store_failure env =
     (read_error env = None \<and>
      write_error env 0 = None \<and> write_error env 1 = None \<and> write_error env 2 = None \<and>
      validation_errors env 1 = [] \<and> validation_errors env 2 = [] \<and>
      commit_error env = None)"

text \<open>The preferences of the business stored under an id, as a document reads them.\<close>

definition stored_preferences :: "db \<Rightarrow> nat \<Rightarrow> preferences option" where
  "stored_preferences store i = map_option read_preferences (stored_business store i)"

text \<open>
  The normalized uniqueness keys of stored elements: the lower-cased trimmed name of a
  category or product type, the upper-cased trimmed abbreviation of a unit.
\<close>

definition category_keys :: "env \<Rightarrow> category list \<Rightarrow> string list" where
  "category_keys env cs = map (\<lambda>c. trim env (toLowerCase env (c_name c))) cs"

definition unit_keys :: "env \<Rightarrow> unit_of_measure list \<Rightarrow> string list" where
  "unit_keys env us = map (\<lambda>u. trim env (toUpperCase env (um_abbreviation u))) us"

definition productType_keys :: "env \<Rightarrow> product_type list \<Rightarrow> string list" where
  "productType_keys env ts = map (\<lambda>t. trim env (toLowerCase env (pt_name t))) ts"

definition unique_keys :: "env \<Rightarrow> preferences \<Rightarrow> bool" where
  "unique_keys env p =
     (distinct (category_keys env (categories p)) \<and> distinct (unit_keys env (units p)) \<and>
      distinct (productType_keys env (productTypes p)))"

text \<open>
  What the comparison of a stored key with a submitted key relies on: trimming twice is
  trimming once, trimming and case conversion can be exchanged, and converting to upper
  case twice is converting once. These hold of the string functions of JavaScript.
\<close>

definition string_laws :: "env \<Rightarrow> bool" where
  "string_laws env =
     (\<forall>s. trim env (trim env s) = trim env s \<and>
          trim env (toLowerCase env s) = toLowerCase env (trim env s) \<and>
          trim env (toUpperCase env s) = toUpperCase env (trim env s) \<and>
          toUpperCase env (toUpperCase env s) = toUpperCase env s)"

text \<open>
  The stores that the system produces: starting from the empty database, any sequence of
  requests to the five handlers, each served by a runtime with the same string
  functions. In such a store the keys of every stored collection are meant to be
  unique.
\<close>

definition same_runtime :: "env \<Rightarrow> env \<Rightarrow> bool" where
  "same_runtime rt env =
     (trim env = trim rt \<and> toLowerCase env = toLowerCase rt \<and> toUpperCase env = toUpperCase rt)"

inductive reachable :: "env \<Rightarrow> db \<Rightarrow> bool" for rt :: env where
  start: "reachable rt \<lparr>users = [], businesses = []\<rparr>"
| registered: "reachable rt store \<Longrightarrow> same_runtime rt env \<Longrightarrow>
     reachable rt (snd (register env store req))"
| logged_in: "reachable rt store \<Longrightarrow> same_runtime rt env \<Longrightarrow>
     reachable rt (snd (login env store lreq))"
| password_updated: "reachable rt store \<Longrightarrow> same_runtime rt env \<Longrightarrow>
     reachable rt (snd (updatePassword env store preq))"
| preferences_updated: "reachable rt store \<Longrightarrow> same_runtime rt env \<Longrightarrow>
     reachable rt (snd (updatePreferences env store qreq))"
| profile_updated: "reachable rt store \<Longrightarrow> same_runtime rt env \<Longrightarrow>
     reachable rt (snd (updateProfile env store freq))"

definition all_keys_unique :: "env \<Rightarrow> db \<Rightarrow> bool" where
  "all_keys_unique env store =
     (\<forall>b \<in> set (businesses store). unique_keys env (read_preferences b))"

text \<open>
  A submitted collection repeats a key when it is an array in which two elements have
  the same normalized key (a string).
\<close>

definition defined_keys :: "(jsval \<Rightarrow> js_error + string option) \<Rightarrow> jsval list \<Rightarrow> string list" where
  "defined_keys key xs =
     List.map_filter (\<lambda>x. case key x of Inr (Some k) \<Rightarrow> Some k | _ \<Rightarrow> None) xs"

definition repeats_key :: "(jsval \<Rightarrow> js_error + string option) \<Rightarrow> jsval \<Rightarrow> bool" where
  "repeats_key key v = (case v of JArr xs \<Rightarrow> \<not> distinct (defined_keys key xs) | _ \<Rightarrow> False)"

text \<open>
  The store accepts a registration for an email: no operation fails, no account has the
  email (as the lookup compares it, lower-cased and trimmed), and the two generated ids
  are not taken.
\<close>

definition registration_accepted :: "env \<Rightarrow> db \<Rightarrow> string \<Rightarrow> bool" where
  "registration_accepted env store email =
     (no_store_failure env \<and>
      find (\<lambda>u. u_email u = set_lowercase_trim env email) (users store) = None \<and>
      new_user_id env \<notin> set (map u_id (users store)) \<and>
      new_business_id env \<notin> set (map b_id (businesses store)))"

text \<open>The request carries the five required fields: each is present and truthy.\<close>

definition required_present :: "register_request \<Rightarrow> bool" where
  "required_present req =
     (truthy_str (rr_firstName req) \<and> truthy_str (rr_lastName req) \<and>
      truthy_str (rr_email req) \<and> truthy_str (rr_password req) \<and>
      truthy_str (rr_businessName req))"

text \<open>The two documents that a successful registration leaves in the store.\<close>

definition registered_user ::
  "env \<Rightarrow> register_request \<Rightarrow> string \<Rightarrow> string \<Rightarrow> string \<Rightarrow> string \<Rightarrow> user" where
  "registered_user env req firstName lastName email password =
     \<lparr>u_id = new_user_id env, u_firstName = set_trim env firstName,
      u_lastName = set_trim env lastName, u_email = set_lowercase_trim env email,
      u_password = bcrypt_hash env password (gen_salt env),
      u_phone = map_option (set_trim env) (rr_phone req),
      u_business = Some (new_business_id env),
      u_role = ''owner'', u_isActive = True, u_isEmailVerified = False,
      u_lastLogin = Some (now env), u_resetPasswordToken = None,
      u_resetPasswordExpire = None, u_createdAt = Some (now env)\<rparr>"

definition registered_business ::
  "env \<Rightarrow> register_request \<Rightarrow> string \<Rightarrow> string \<Rightarrow> business" where
  "registered_business env req email businessName =
     (bd_fields (new_Business env businessName (or_default (rr_industry req) ''other'')
        (or_str (rr_businessEmail req) (Some email))
        (or_str (rr_businessPhone req) (rr_phone req)) (new_user_id env)))
     \<lparr>b_createdAt := Some (now env)\<rparr>"

text \<open>
  The three blocks of \<^verbatim>\<open>updatePreferences\<close> all complete, taking the loaded business
  \<open>b\<close> to \<open>b3\<close>; and the store accepts the single write of an update request.
\<close>

definition updates_ok ::
  "env \<Rightarrow> preferences_request \<Rightarrow> business \<Rightarrow> business \<Rightarrow> bool" where
  "updates_ok env req b b3 =
     (\<exists>b1 b2. update_categories env (pr_categories req) b = Inr b1 \<and>
              update_units env (pr_units req) b1 = Inr b2 \<and>
              update_productTypes env (pr_productTypes req) b2 = Inr b3)"

definition save_accepted :: "env \<Rightarrow> bool" where
  "save_accepted env = (validation_errors env 0 = [] \<and> write_error env 0 = None)"

text \<open>A product-type element that omits the three boolean fields.\<close>

definition omits_booleans :: "jsval \<Rightarrow> bool" where
  "omits_booleans v =
     (case v of
        JObj kvs \<Rightarrow>
          map_of kvs ''requiresSerialNumber'' = None \<and>
          map_of kvs ''requiresExpiryDate'' = None \<and>
          map_of kvs ''trackInventory'' = None
      | _ \<Rightarrow> False)"

section \<open>Example data\<close>

text \<open>
  The data of the examples are ASCII strings. On these the string functions of the
  runtime are the following: white space is trimmed at both ends, and the letters A-Z
  and a-z are converted.
\<close>

definition is_space :: "char \<Rightarrow> bool" where
  "is_space c = (c \<in> set [CHR 0x09, CHR 0x0A, CHR 0x0B, CHR 0x0C, CHR 0x0D, CHR 0x20])"

definition ascii_trim :: "string \<Rightarrow> string" where
  "ascii_trim s = rev (dropWhile is_space (rev (dropWhile is_space s)))"

definition lower_char :: "char \<Rightarrow> char" where
  "lower_char c =
     (case map_of (zip ''ABCDEFGHIJKLMNOPQRSTUVWXYZ'' ''abcdefghijklmnopqrstuvwxyz'') c of
        None \<Rightarrow> c | Some d \<Rightarrow> d)"

definition upper_char :: "char \<Rightarrow> char" where
  "upper_char c =
     (case map_of (zip ''abcdefghijklmnopqrstuvwxyz'' ''ABCDEFGHIJKLMNOPQRSTUVWXYZ'') c of
        None \<Rightarrow> c | Some d \<Rightarrow> d)"

definition ascii_toLowerCase :: "string \<Rightarrow> string" where
  "ascii_toLowerCase s = map lower_char s"

definition ascii_toUpperCase :: "string \<Rightarrow> string" where
  "ascii_toUpperCase s = map upper_char s"

text \<open>
  A store that accepts everything, with a stand-in for bcrypt, and the registration of
  the test suite (\<^verbatim>\<open>validUserData\<close>).
\<close>

definition example_env :: env where
  "example_env =
     \<lparr>trim = ascii_trim, toLowerCase = ascii_toLowerCase, toUpperCase = ascii_toUpperCase,
      now = 1000, new_user_id = 1, new_business_id = 2, gen_salt = ''salt'',
      bcrypt_hash = (\<lambda>p s. ''$'' @ s @ ''$'' @ p),
      bcrypt_compare = (\<lambda>p h. h = ''$salt$'' @ p),
      read_error = None, validation_errors = (\<lambda>k. []), write_error = (\<lambda>k. None),
      commit_error = None\<rparr>"

definition empty_db :: db where
  "empty_db = \<lparr>users = [], businesses = []\<rparr>"

definition john :: register_request where
  "john =
     \<lparr>rr_firstName = Some ''John'', rr_lastName = Some ''Doe'',
      rr_email = Some ''john@example.com'', rr_password = Some ''Password123'',
      rr_phone = Some ''+2348012345678'', rr_businessName = Some ''John's Electronics'',
      rr_industry = Some ''retail'', rr_businessEmail = None, rr_businessPhone = None,
      rr_role = JUndefined\<rparr>"

definition john_db :: db where
  "john_db = snd (register example_env empty_db john)"

text \<open>The account and the business that this registration stores.\<close>

definition john_user :: user where
  "john_user =
     \<lparr>u_id = 1, u_firstName = ''John'', u_lastName = ''Doe'', u_email = ''john@example.com'',
      u_password = ''$salt$Password123'', u_phone = Some ''+2348012345678'',
      u_business = Some 2, u_role = ''owner'', u_isActive = True, u_isEmailVerified = False,
      u_lastLogin = Some 1000, u_resetPasswordToken = None, u_resetPasswordExpire = None,
      u_createdAt = Some 1000\<rparr>"

definition john_business :: business where
  "john_business =
     \<lparr>b_id = 2, b_name = ''John's Electronics'', b_description = None,
      b_industry = ''retail'', b_email = Some ''john@example.com'',
      b_phone = Some ''+2348012345678'', b_website = None,
      b_address = \<lparr>a_street = None, a_city = None, a_state = None,
                   a_country = Some ''Nigeria'', a_postalCode = None\<rparr>,
      b_registrationNumber = None, b_taxId = None, b_currency = ''NGN'',
      b_timezone = ''Africa/Lagos'',
      b_preferences = Some \<lparr>categories = [], units = [], productTypes = []\<rparr>,
      b_owner = 1, b_isActive = True, b_subscriptionStatus = ''trial'',
      b_subscriptionPlan = ''free'', b_logo = None, b_totalEmployees = 1,
      b_totalRevenue = 0, b_createdAt = Some 1000\<rparr>"

definition later_env :: env where
  "later_env = example_env\<lparr>now := 2000, new_user_id := 3, new_business_id := 4\<rparr>"




text \<open>
  The same email written with capitals and surrounded by blanks, in a registration and
  in a login with the right password; and a change of password.
\<close>

definition john_again :: register_request where
  "john_again = john\<lparr>rr_email := Some '' John@Example.COM ''\<rparr>"



text \<open>
  A store in which the business holds the default bootstrap set, and some replace
  requests: one collection only, the scenario of the spec with two units whose
  abbreviations coincide after normalization, the same together with categories that
  are not an array, and a product type that gives only its name.
\<close>

definition shop_db :: db where
  "shop_db =
     john_db\<lparr>businesses :=
       map (\<lambda>b. b\<lparr>b_preferences := Some (default_preferences 1000)\<rparr>) (businesses john_db)\<rparr>"

text \<open>The same store with a business document that lacks the path \<^verbatim>\<open>preferences\<close>.\<close>

definition legacy_db :: db where
  "legacy_db =
     john_db\<lparr>businesses := map (\<lambda>b. b\<lparr>b_preferences := None\<rparr>) (businesses john_db)\<rparr>"

definition units_only :: preferences_request where
  "units_only =
     \<lparr>pr_business = Some 2, pr_categories = JUndefined,
      pr_units = JArr [JObj [(''name'', JStr ''Box''), (''abbreviation'', JStr ''bx'')]],
      pr_productTypes = JUndefined\<rparr>"

definition duplicate_units :: preferences_request where
  "duplicate_units =
     \<lparr>pr_business = Some 2, pr_categories = JUndefined,
      pr_units = JArr [JObj [(''name'', JStr ''Box''), (''abbreviation'', JStr ''bx'')],
                       JObj [(''name'', JStr ''Pack''), (''abbreviation'', JStr ''BX'')]],
      pr_productTypes = JUndefined\<rparr>"

definition gadget_only :: preferences_request where
  "gadget_only =
     \<lparr>pr_business = Some 2, pr_categories = JUndefined, pr_units = JUndefined,
      pr_productTypes = JArr [JObj [(''name'', JStr ''Gadget'')]]\<rparr>"

definition duplicate_names :: jsval where
  "duplicate_names =
     JArr [JObj [(''name'', JStr ''Tools'')], JObj [(''name'', JStr '' tools '')]]"

definition duplicate_categories :: preferences_request where
  "duplicate_categories =
     \<lparr>pr_business = Some 2, pr_categories = duplicate_names, pr_units = JUndefined,
      pr_productTypes = JUndefined\<rparr>"

definition duplicate_productTypes :: preferences_request where
  "duplicate_productTypes =
     \<lparr>pr_business = Some 2, pr_categories = JUndefined, pr_units = JUndefined,
      pr_productTypes = duplicate_names\<rparr>"

definition bad_categories_duplicate_units :: preferences_request where
  "bad_categories_duplicate_units = duplicate_units\<lparr>pr_categories := JStr ''abc''\<rparr>"

text \<open>
  A profile update that sends the empty string for every text field except the website,
  which it leaves out, and no address.
\<close>

definition blank_profile :: profile_request where
  "blank_profile =
     \<lparr>pf_business = Some 2, pf_name = Some [], pf_description = Some [],
      pf_industry = Some [], pf_email = Some [], pf_phone = Some [], pf_website = None,
      pf_address = None, pf_currency = Some [], pf_timezone = Some [],
      pf_registrationNumber = Some [], pf_taxId = Some []\<rparr>"


section \<open>Registration\<close>

lemma map_replace_absent:
  "i \<notin> set (map f xs) \<Longrightarrow> map (\<lambda>x. if f x = i then g x else x) xs = xs"
  by (induction xs) auto

lemma is_success_failure [simp]: "\<not> is_success (failure c m)"
  by (simp add: failure_def)

lemma is_success_register_catch [simp]: "\<not> is_success (register_catch e)"
  by (cases e) (simp_all add: register_catch_def)

lemma register_steps_accepted:
  assumes "registration_accepted env store email"
  shows "register_steps env store (startTransaction store) req firstName lastName email
           password businessName =
         (Json 201 True ''Registration successful'' []
            (AuthData (Token (new_user_id env))
               (user_toPublicProfile (registered_user env req firstName lastName email password)
                  (BusinessId (new_business_id env)))
               (business_toPublicProfile (registered_business env req email businessName))),
          store\<lparr>users := users store @ [registered_user env req firstName lastName email password],
                businesses := businesses store @ [registered_business env req email businessName]\<rparr>)"
  using assms
  by (simp add: registration_accepted_def no_store_failure_def register_steps_def
        User_findOne_def User_save_def Business_save_def Let_def new_User_def
        new_Business_def stamp_user_def stamp_business_def user_pre_save_def
        business_pre_save_def set_business_def set_lastLogin_def registered_user_def
        registered_business_def array_truthy_def object_truthy_def startTransaction_def
        commitTransaction_def generateToken_def map_replace_absent apply_delta_def
        copy_path_def)

lemma register_steps_rejected:
  assumes "\<not> registration_accepted env store email"
  shows "\<not> is_success (fst (register_steps env store (startTransaction store) req firstName
           lastName email password businessName))"
  using assms
  by (simp add: registration_accepted_def no_store_failure_def register_steps_def
        User_findOne_def User_save_def Business_save_def Let_def new_User_def
        new_Business_def stamp_user_def stamp_business_def user_pre_save_def
        business_pre_save_def set_business_def set_lastLogin_def
        array_truthy_def object_truthy_def startTransaction_def commitTransaction_def
        split: option.splits) auto

lemma register_steps_failure_unchanged:
  "\<not> is_success (fst (register_steps env store s req firstName lastName email password
       businessName)) \<Longrightarrow>
   snd (register_steps env store s req firstName lastName email password businessName) = store"
  by (simp add: register_steps_def Let_def abortTransaction_def
        split: option.splits sum.splits prod.splits)

lemma register_unfold:
  "register env store req =
     (case (rr_firstName req, rr_lastName req, rr_email req, rr_password req, rr_businessName req) of
        (Some firstName, Some lastName, Some email, Some password, Some businessName) \<Rightarrow>
          if firstName = [] \<or> lastName = [] \<or> email = [] \<or> password = [] \<or> businessName = []
          then (failure 400 missing_fields_message, store)
          else register_steps env store (startTransaction store) req firstName lastName email
                 password businessName
      | _ \<Rightarrow> (failure 400 missing_fields_message, store))"
  by (simp add: register_def Let_def abortTransaction_def split: option.splits)

lemma register_missing:
  "\<not> required_present req \<Longrightarrow> register env store req = (failure 400 missing_fields_message, store)"
  by (auto simp: register_unfold required_present_def split: option.splits)

lemma register_failure_unchanged:
  "\<not> is_success (fst (register env store req)) \<Longrightarrow> snd (register env store req) = store"
  by (auto simp: register_unfold register_steps_failure_unchanged split: option.splits)

lemma register_success_cases:
  assumes "is_success (fst (register env store req))"
  shows "\<exists>firstName lastName email password businessName.
    rr_firstName req = Some firstName \<and> rr_lastName req = Some lastName \<and>
    rr_email req = Some email \<and> rr_password req = Some password \<and>
    rr_businessName req = Some businessName \<and>
    firstName \<noteq> [] \<and> lastName \<noteq> [] \<and> email \<noteq> [] \<and> password \<noteq> [] \<and> businessName \<noteq> [] \<and>
    registration_accepted env store email \<and>
    register env store req =
       register_steps env store (startTransaction store) req firstName lastName email password
         businessName"
proof -
  from assms obtain firstName lastName email password businessName where
    f: "rr_firstName req = Some firstName" "rr_lastName req = Some lastName"
       "rr_email req = Some email" "rr_password req = Some password"
       "rr_businessName req = Some businessName"
    by (auto simp: register_unfold split: option.splits)
  from assms f have ne:
    "firstName \<noteq> []" "lastName \<noteq> []" "email \<noteq> []" "password \<noteq> []" "businessName \<noteq> []"
    by (auto simp: register_unfold split: if_splits)
  from f ne have eq: "register env store req =
       register_steps env store (startTransaction store) req firstName lastName email password
         businessName"
    by (simp add: register_unfold)
  from assms eq have "registration_accepted env store email"
    using register_steps_rejected by fastforce
  with f ne eq show ?thesis by blast
qed

lemma register_success_shape:
  assumes "is_success (fst (register env store req))"
  shows "\<exists>firstName lastName email password businessName.
    rr_email req = Some email \<and> rr_businessName req = Some businessName \<and>
    rr_password req = Some password \<and>
    snd (register env store req) =
      store\<lparr>users := users store @ [registered_user env req firstName lastName email password],
            businesses := businesses store @ [registered_business env req email businessName]\<rparr>"
proof -
  from register_success_cases [OF assms] obtain firstName lastName email password businessName
    where f: "rr_email req = Some email" "rr_businessName req = Some businessName"
      "rr_password req = Some password"
      and acc: "registration_accepted env store email"
      and eq: "register env store req =
         register_steps env store (startTransaction store) req firstName lastName email password
           businessName"
    by blast
  from register_steps_accepted [OF acc] eq f show ?thesis by auto
qed

text \<open>
  Claim C1. A registration request that carries a first name, last name, email, password
  and business name (each non-empty), for an email that no account has, on a store in
  which no operation fails (and which accepts the two generated ids), succeeds. Every
  successful registration adds exactly one account and one business to the store, the
  account referring to the business and the business owned by the account. Every
  registration that does not succeed leaves the store as it was: neither record
  persists. An account has the email when its stored email is the submitted one after
  lower-casing and trimming, which is how the lookup of the controller compares them.
\<close>

theorem register_creates_linked_pair:
  "(rr_firstName req = Some firstName \<and> firstName \<noteq> [] \<and>
    rr_lastName req = Some lastName \<and> lastName \<noteq> [] \<and>
    rr_email req = Some email \<and> email \<noteq> [] \<and>
    rr_password req = Some password \<and> password \<noteq> [] \<and>
    rr_businessName req = Some businessName \<and> businessName \<noteq> [] \<and>
    registration_accepted env store email
    \<longrightarrow> is_success (fst (register env store req)))
   \<and> (is_success (fst (register env store req)) \<longrightarrow>
        (\<exists>u b. snd (register env store req) =
                 store\<lparr>users := users store @ [u], businesses := businesses store @ [b]\<rparr> \<and>
               u_business u = Some (b_id b) \<and> b_owner b = u_id u))
   \<and> (\<not> is_success (fst (register env store req)) \<longrightarrow>
        snd (register env store req) = store)"
proof (intro conjI impI)
  assume h: "rr_firstName req = Some firstName \<and> firstName \<noteq> [] \<and>
    rr_lastName req = Some lastName \<and> lastName \<noteq> [] \<and>
    rr_email req = Some email \<and> email \<noteq> [] \<and>
    rr_password req = Some password \<and> password \<noteq> [] \<and>
    rr_businessName req = Some businessName \<and> businessName \<noteq> [] \<and>
    registration_accepted env store email"
  then have "register env store req =
      register_steps env store (startTransaction store) req firstName lastName email password
        businessName"
    by (simp add: register_unfold)
  with h show "is_success (fst (register env store req))"
    by (simp add: register_steps_accepted)
next
  assume "is_success (fst (register env store req))"
  from register_success_shape [OF this] obtain firstName lastName email password businessName
    where "snd (register env store req) =
      store\<lparr>users := users store @ [registered_user env req firstName lastName email password],
            businesses := businesses store @ [registered_business env req email businessName]\<rparr>"
    by blast
  moreover have "u_business (registered_user env req firstName lastName email password) =
      Some (b_id (registered_business env req email businessName))"
    by (simp add: registered_user_def registered_business_def new_Business_def)
  moreover have "b_owner (registered_business env req email businessName) =
      u_id (registered_user env req firstName lastName email password)"
    by (simp add: registered_user_def registered_business_def new_Business_def)
  ultimately show "\<exists>u b. snd (register env store req) =
                 store\<lparr>users := users store @ [u], businesses := businesses store @ [b]\<rparr> \<and>
               u_business u = Some (b_id b) \<and> b_owner b = u_id u"
    by blast
next
  assume "\<not> is_success (fst (register env store req))"
  then show "snd (register env store req) = store"
    by (rule register_failure_unchanged)
qed

subsection \<open>The example registration\<close>

lemma example_runtime:
  "trim example_env = ascii_trim" "toLowerCase example_env = ascii_toLowerCase"
  "toUpperCase example_env = ascii_toUpperCase"
  "trim later_env = ascii_trim" "toLowerCase later_env = ascii_toLowerCase"
  "toUpperCase later_env = ascii_toUpperCase"
  by (simp_all add: example_env_def later_env_def)

lemma ascii_john:
  "ascii_trim ''John'' = ''John''" "ascii_trim ''Doe'' = ''Doe''"
  "ascii_trim ''+2348012345678'' = ''+2348012345678''"
  "ascii_trim ''John's Electronics'' = ''John's Electronics''"
  "ascii_toLowerCase (ascii_trim ''john@example.com'') = ''john@example.com''"
  "ascii_toLowerCase (ascii_trim '' John@Example.COM '') = ''john@example.com''"
  "ascii_trim (ascii_toLowerCase ''john@example.com'') = ''john@example.com''"
  "ascii_toLowerCase ''john@example.com'' \<noteq> []"
  "ascii_trim ''john@example.com'' \<noteq> []" "ascii_trim '' John@Example.COM '' \<noteq> []"
  by code_simp+

lemma john_strings:
  "set_trim example_env ''John'' = ''John''" "set_trim example_env ''Doe'' = ''Doe''"
  "set_trim example_env ''+2348012345678'' = ''+2348012345678''"
  "set_trim example_env ''John's Electronics'' = ''John's Electronics''"
  "set_lowercase_trim example_env ''john@example.com'' = ''john@example.com''"
  "set_lowercase_trim example_env '' John@Example.COM '' = ''john@example.com''"
  "set_lowercase_trim later_env ''john@example.com'' = ''john@example.com''"
  "set_lowercase_trim later_env '' John@Example.COM '' = ''john@example.com''"
  "set_trim_lowercase example_env ''john@example.com'' = ''john@example.com''"
  by (simp_all add: set_trim_def set_lowercase_def set_lowercase_trim_def
      set_trim_lowercase_def example_runtime ascii_john)

lemma example_accepted: "registration_accepted example_env empty_db ''john@example.com''"
  by (simp add: registration_accepted_def no_store_failure_def example_env_def empty_db_def)

lemma john_registered:
  "registered_user example_env john ''John'' ''Doe'' ''john@example.com'' ''Password123'' =
     john_user"
  "registered_business example_env john ''john@example.com'' ''John's Electronics'' =
     john_business"
  by (simp_all add: registered_user_def registered_business_def new_Business_def john_strings
        john_user_def john_business_def john_def or_default_def or_str_def)
     (simp_all add: example_env_def)

lemma john_db_eq: "john_db = \<lparr>users = [john_user], businesses = [john_business]\<rparr>"
  using register_steps_accepted [of example_env empty_db "''john@example.com''" john
      "''John''" "''Doe''" "''Password123''" "''John's Electronics''"] example_accepted
  by (simp add: john_db_def register_unfold john_def [symmetric] john_registered empty_db_def)
     (simp add: john_def)

theorem register_creates_linked_pair_witness:
  "is_success (fst (register example_env empty_db john)) \<and>
   snd (register example_env empty_db john) =
     empty_db\<lparr>users := users empty_db @ [john_user],
              businesses := businesses empty_db @ [john_business]\<rparr> \<and>
   u_business john_user = Some (b_id john_business) \<and> b_owner john_business = u_id john_user \<and>
   \<not> is_success (fst (register (example_env\<lparr>commit_error := Some (StoreError ''down'')\<rparr>)
                         empty_db john)) \<and>
   snd (register (example_env\<lparr>commit_error := Some (StoreError ''down'')\<rparr>) empty_db john)
     = empty_db"
proof -
  have a: "is_success (fst (register example_env empty_db john))"
    using register_creates_linked_pair [of john "''John''" "''Doe''" "''john@example.com''"
        "''Password123''" "''John's Electronics''" example_env empty_db] example_accepted
    by (simp add: john_def)
  have s: "snd (register example_env empty_db john) =
     empty_db\<lparr>users := users empty_db @ [john_user],
              businesses := businesses empty_db @ [john_business]\<rparr>"
    using john_db_eq by (simp add: john_db_def empty_db_def)
  have l: "u_business john_user = Some (b_id john_business) \<and>
      b_owner john_business = u_id john_user"
    by (simp add: john_user_def john_business_def)
  have b: "\<not> registration_accepted (example_env\<lparr>commit_error := Some (StoreError ''down'')\<rparr>)
     empty_db ''john@example.com''"
    by (simp add: registration_accepted_def no_store_failure_def)
  have c: "\<not> is_success (fst (register (example_env\<lparr>commit_error := Some (StoreError ''down'')\<rparr>)
                         empty_db john))"
    using register_steps_rejected [OF b] by (simp add: register_unfold john_def)
  from a s l c show ?thesis
    using register_creates_linked_pair [of john "''John''" "''Doe''" "''john@example.com''"
        "''Password123''" "''John's Electronics''"
        "example_env\<lparr>commit_error := Some (StoreError ''down'')\<rparr>" empty_db]
    by blast
qed

subsection \<open>An email that is taken\<close>

lemma find_email_exists:
  "e \<in> set (map u_email (users store)) \<Longrightarrow> find (\<lambda>u. u_email u = e) (users store) \<noteq> None"
  by (auto simp: find_None_iff)

lemma register_steps_existing:
  assumes "set_lowercase_trim env email \<in> set (map u_email (users store))"
  shows "register_steps env store (startTransaction store) req firstName lastName email
           password businessName =
         (case read_error env of
            None \<Rightarrow> (failure 400 ''User with this email already exists'', store)
          | Some e \<Rightarrow> (register_catch e, store))"
  using find_email_exists [OF assms]
  by (auto simp: register_steps_def User_findOne_def abortTransaction_def split: option.splits)

lemma register_present:
  assumes "required_present req"
  shows "\<exists>firstName lastName email password businessName.
    rr_email req = Some email \<and>
    register env store req =
      register_steps env store (startTransaction store) req firstName lastName email password
        businessName"
proof -
  from assms obtain firstName lastName email password businessName where
    f: "rr_firstName req = Some firstName" "rr_lastName req = Some lastName"
    "rr_email req = Some email" "rr_password req = Some password"
    "rr_businessName req = Some businessName"
    "firstName \<noteq> []" "lastName \<noteq> []" "email \<noteq> []" "password \<noteq> []" "businessName \<noteq> []"
    unfolding required_present_def
    by (cases "rr_firstName req"; cases "rr_lastName req"; cases "rr_email req";
        cases "rr_password req"; cases "rr_businessName req") auto
  then have "register env store req =
      register_steps env store (startTransaction store) req firstName lastName email password
        businessName"
    by (simp add: register_unfold)
  with f(3) show ?thesis by blast
qed

text \<open>
  Claim C2, as amended. A registration whose email is the email of an existing account
  (the stored email is the submitted one, lower-cased and trimmed) never succeeds and
  leaves the store unchanged: no account and no business is added. The response is the
  conflict error when the request carries the five required fields and the store answers
  the lookup; it is the error of the store when the lookup fails; and a request that
  lacks a required field is answered with the missing-fields error, before any lookup.
\<close>

theorem register_duplicate_email_rejected:
  "rr_email req = Some email \<and> set_lowercase_trim env email \<in> set (map u_email (users store))
   \<longrightarrow>
     \<not> is_success (fst (register env store req)) \<and>
     snd (register env store req) = store \<and>
     (required_present req \<and> read_error env = None
      \<longrightarrow> fst (register env store req) =
            failure 400 ''User with this email already exists'') \<and>
     (required_present req \<and> read_error env = Some e
      \<longrightarrow> fst (register env store req) = register_catch e) \<and>
     (\<not> required_present req
      \<longrightarrow> fst (register env store req) =
            failure 400
              ''Please provide all required fields: firstName, lastName, email, password, businessName'')"
proof (intro impI)
  assume h: "rr_email req = Some email \<and>
    set_lowercase_trim env email \<in> set (map u_email (users store))"
  have ns: "\<not> is_success (fst (register env store req))"
  proof
    assume "is_success (fst (register env store req))"
    from register_success_cases [OF this] h
    have "registration_accepted env store email" by auto
    with h show False
      using find_email_exists [of "set_lowercase_trim env email" store]
      by (simp add: registration_accepted_def)
  qed
  have un: "snd (register env store req) = store"
    using ns by (rule register_failure_unchanged)
  have pr: "fst (register env store req) =
      (case read_error env of
         None \<Rightarrow> failure 400 ''User with this email already exists''
       | Some e \<Rightarrow> register_catch e)" if "required_present req"
  proof -
    from register_present [OF that, of env store] h
    obtain firstName lastName password businessName where
      "register env store req =
         register_steps env store (startTransaction store) req firstName lastName email password
           businessName"
      by auto
    with h show ?thesis
      by (simp add: register_steps_existing split: option.splits)
  qed
  have mi: "fst (register env store req) =
      failure 400
        ''Please provide all required fields: firstName, lastName, email, password, businessName''"
    if "\<not> required_present req"
    using register_missing [OF that, of env store] by (simp add: missing_fields_message_def)
  from ns un pr mi show "\<not> is_success (fst (register env store req)) \<and>
     snd (register env store req) = store \<and>
     (required_present req \<and> read_error env = None
      \<longrightarrow> fst (register env store req) =
            failure 400 ''User with this email already exists'') \<and>
     (required_present req \<and> read_error env = Some e
      \<longrightarrow> fst (register env store req) = register_catch e) \<and>
     (\<not> required_present req
      \<longrightarrow> fst (register env store req) =
            failure 400
              ''Please provide all required fields: firstName, lastName, email, password, businessName'')"
    by simp
qed

lemma john_db_emails: "map u_email (users john_db) = [''john@example.com'']"
  by (simp add: john_db_eq john_user_def)

theorem register_duplicate_email_rejected_witness:
  "map u_email (users john_db) = [''john@example.com''] \<and>
   rr_email john = Some ''john@example.com'' \<and> required_present john \<and>
   snd (register later_env john_db john) = john_db \<and>
   fst (register later_env john_db john) =
     failure 400 ''User with this email already exists'' \<and>
   rr_email john_again = Some '' John@Example.COM '' \<and> required_present john_again \<and>
   snd (register later_env john_db john_again) = john_db \<and>
   fst (register later_env john_db john_again) =
     failure 400 ''User with this email already exists'' \<and>
   \<not> required_present (john\<lparr>rr_firstName := None\<rparr>) \<and>
   snd (register later_env john_db (john\<lparr>rr_firstName := None\<rparr>)) = john_db \<and>
   fst (register later_env john_db (john\<lparr>rr_firstName := None\<rparr>)) =
     failure 400
       ''Please provide all required fields: firstName, lastName, email, password, businessName''"
proof -
  have r: "read_error later_env = None"
    by (simp add: later_env_def example_env_def)
  have p: "required_present john" "required_present john_again"
    "\<not> required_present (john\<lparr>rr_firstName := None\<rparr>)"
    by (simp_all add: required_present_def john_def john_again_def)
  have e: "rr_email john = Some ''john@example.com''"
    "rr_email john_again = Some '' John@Example.COM ''"
    "rr_email (john\<lparr>rr_firstName := None\<rparr>) = Some ''john@example.com''"
    by (simp_all add: john_def john_again_def)
  from register_duplicate_email_rejected [of john "''john@example.com''" later_env john_db]
    register_duplicate_email_rejected [of john_again "'' John@Example.COM ''" later_env john_db]
    register_duplicate_email_rejected [of "john\<lparr>rr_firstName := None\<rparr>" "''john@example.com''"
      later_env john_db]
    r p e
  show ?thesis
    by (simp add: john_db_emails john_strings)
qed

text \<open>
  Claim C2 as stated fails: a request with the email of the existing account and no
  first name is answered with the missing-fields error, not with the conflict error.
\<close>

theorem register_duplicate_email_missing_field:
  "rr_email (john\<lparr>rr_firstName := None\<rparr>) = Some ''john@example.com'' \<and>
   map u_email (users john_db) = [''john@example.com''] \<and>
   fst (register later_env john_db (john\<lparr>rr_firstName := None\<rparr>)) =
     failure 400
       ''Please provide all required fields: firstName, lastName, email, password, businessName'' \<and>
   fst (register later_env john_db (john\<lparr>rr_firstName := None\<rparr>)) \<noteq>
     failure 400 ''User with this email already exists''"
  by (simp add: john_db_emails register_unfold missing_fields_message_def failure_def)
     (simp add: john_def)

subsection \<open>The role of the new account\<close>

lemma register_ignores_role:
  "register env store (req\<lparr>rr_role := v\<rparr>) = register env store req"
proof -
  have "register_steps env store s (req\<lparr>rr_role := v\<rparr>) firstName lastName email password
          businessName =
        register_steps env store s req firstName lastName email password businessName"
    for s firstName lastName email password businessName
    by (simp add: register_steps_def Let_def
          cong: sum.case_cong option.case_cong prod.case_cong)
  then show ?thesis
    by (simp add: register_unfold split: option.splits)
qed

text \<open>
  Claim C9. Every successful registration creates an account whose role is
  \<^verbatim>\<open>owner\<close>; a role entry in the body changes neither the response nor the store.
\<close>

theorem register_role_owner:
  "(is_success (fst (register env store req)) \<longrightarrow>
      (\<exists>u. users (snd (register env store req)) = users store @ [u] \<and> u_role u = ''owner''))
   \<and> register env store (req\<lparr>rr_role := v\<rparr>) = register env store req"
proof (intro conjI impI)
  assume "is_success (fst (register env store req))"
  from register_success_shape [OF this]
  show "\<exists>u. users (snd (register env store req)) = users store @ [u] \<and> u_role u = ''owner''"
    by (auto simp: registered_user_def)
next
  show "register env store (req\<lparr>rr_role := v\<rparr>) = register env store req"
    by (rule register_ignores_role)
qed

theorem register_role_owner_witness:
  "is_success (fst (register example_env empty_db (john\<lparr>rr_role := JStr ''admin''\<rparr>))) \<and>
   (\<exists>u. users (snd (register example_env empty_db (john\<lparr>rr_role := JStr ''admin''\<rparr>))) =
           users empty_db @ [u] \<and> u_role u = ''owner'')"
proof -
  have "is_success (fst (register example_env empty_db (john\<lparr>rr_role := JStr ''admin''\<rparr>)))"
    using register_steps_accepted [OF example_accepted]
    by (simp add: register_unfold john_def)
  then show ?thesis
    using register_role_owner [of example_env empty_db "john\<lparr>rr_role := JStr ''admin''\<rparr>"]
    by blast
qed

subsection \<open>Bootstrap preferences\<close>

text \<open>
  The pre-save hook leaves every document as it is: its guard asks whether the
  preferences object or its array of categories is falsy, and neither ever is. In
  particular the document built by \<^verbatim>\<open>register\<close> keeps its three empty arrays.
\<close>

lemma business_pre_save_id: "business_pre_save env d = d"
  by (simp add: business_pre_save_def array_truthy_def object_truthy_def)

lemma register_preferences_empty:
  assumes "is_success (fst (register env store req))"
  shows "\<exists>b. businesses (snd (register env store req)) = businesses store @ [b] \<and>
           b_preferences b = Some \<lparr>categories = [], units = [], productTypes = []\<rparr>"
  using register_success_shape [OF assms]
  by (auto simp: registered_business_def new_Business_def)

text \<open>
  Claim C4 does not hold of the code. The registration of the test suite succeeds, and
  the business it creates has three empty collections, not the default bootstrap set:
  the guard of the hook tests the truthiness of an array.
\<close>

theorem register_john_preferences_empty:
  "is_success (fst (register example_env empty_db john)) \<and>
   map b_preferences (businesses (snd (register example_env empty_db john))) =
     [Some \<lparr>categories = [], units = [], productTypes = []\<rparr>] \<and>
   Some \<lparr>categories = [], units = [], productTypes = []\<rparr> \<noteq> Some (default_preferences 1000)"
proof -
  have "snd (register example_env empty_db john) = john_db"
    by (simp add: john_db_def)
  moreover have "is_success (fst (register example_env empty_db john))"
    using register_steps_accepted [OF example_accepted]
    by (simp add: register_unfold john_def)
  ultimately show ?thesis
    by (simp add: john_db_eq john_business_def default_preferences_def default_categories_def)
qed

section \<open>Login\<close>




lemma later_env_fields:
  "read_error later_env = None" "now later_env = 2000" "validation_errors later_env k = []"
  "write_error later_env k = None" "gen_salt later_env = ''salt''"
  "bcrypt_compare later_env p h = (h = ''$salt$'' @ p)"
  "bcrypt_hash later_env p t = ''$'' @ t @ ''$'' @ p"
  by (simp_all add: later_env_def example_env_def)






section \<open>Hashing on save\<close>





















section \<open>Lists and strings\<close>

subsection \<open>The duplicate filter\<close>

lemma indexOf_from_first:
  "x \<in> set xs \<Longrightarrow> indexOf_from xs x k = int (k + length (takeWhile (\<lambda>y. y \<noteq> x) xs))"
  by (induction xs arbitrary: k) auto

lemma indexOf_nth:
  assumes "i < length xs"
  shows "indexOf xs (xs ! i) = int i \<longleftrightarrow> xs ! i \<notin> set (take i xs)"
proof -
  let ?P = "\<lambda>y. y \<noteq> xs ! i"
  have "xs ! i \<in> set xs" using assms by simp
  then have eq: "indexOf xs (xs ! i) = int (length (takeWhile ?P xs))"
    by (simp add: indexOf_def indexOf_from_first)
  show ?thesis
  proof
    assume "indexOf xs (xs ! i) = int i"
    with eq have len: "length (takeWhile ?P xs) = i" by simp
    have "takeWhile ?P xs = take (length (takeWhile ?P xs)) xs"
      by (rule takeWhile_eq_take)
    with len have "take i xs = takeWhile ?P xs" by simp
    then show "xs ! i \<notin> set (take i xs)"
      using set_takeWhileD [of "xs ! i" ?P xs] by auto
  next
    assume notin: "xs ! i \<notin> set (take i xs)"
    have split: "xs = take i xs @ xs ! i # drop (Suc i) xs"
      using assms by (rule id_take_nth_drop)
    have "takeWhile ?P xs = takeWhile ?P (take i xs @ xs ! i # drop (Suc i) xs)"
      using split by simp
    also have "\<dots> = take i xs @ takeWhile ?P (xs ! i # drop (Suc i) xs)"
      using notin by (intro takeWhile_append2) auto
    also have "\<dots> = take i xs" by simp
    finally have "length (takeWhile ?P xs) = i" using assms by simp
    with eq show "indexOf xs (xs ! i) = int i" by simp
  qed
qed

lemma duplicates_set:
  "set (duplicates xs) = {x. \<exists>i<length xs. xs ! i = x \<and> indexOf xs x \<noteq> int i}"
  by (force simp: duplicates_def set_zip in_set_conv_nth)

lemma duplicates_empty_iff: "duplicates xs = [] \<longleftrightarrow> distinct xs"
proof -
  have "duplicates xs = [] \<longleftrightarrow> set (duplicates xs) = {}" by simp
  also have "\<dots> \<longleftrightarrow> (\<forall>i<length xs. xs ! i \<notin> set (take i xs))"
    by (auto simp: duplicates_set indexOf_nth)
  also have "\<dots> \<longleftrightarrow> distinct xs"
  proof
    assume h: "\<forall>i<length xs. xs ! i \<notin> set (take i xs)"
    show "distinct xs"
      unfolding distinct_conv_nth
    proof (intro allI impI)
      fix i j assume ij: "i < length xs" "j < length xs" "i \<noteq> j"
      show "xs ! i \<noteq> xs ! j"
      proof (cases "i < j")
        case True
        then have "xs ! i \<in> set (take j xs)"
          using ij by (auto simp: in_set_conv_nth intro!: exI [of _ i])
        with h ij show ?thesis by metis
      next
        case False
        with ij have "j < i" by simp
        then have "xs ! j \<in> set (take i xs)"
          using ij by (auto simp: in_set_conv_nth intro!: exI [of _ j])
        with h ij show ?thesis by metis
      qed
    qed
  next
    assume d: "distinct xs"
    show "\<forall>i<length xs. xs ! i \<notin> set (take i xs)"
    proof (intro allI impI notI)
      fix i assume i: "i < length xs" and mem: "xs ! i \<in> set (take i xs)"
      then obtain j where "j < i" "xs ! j = xs ! i"
        by (auto simp: in_set_conv_nth)
      with d i show False
        by (auto simp: distinct_conv_nth)
    qed
  qed
  finally show ?thesis .
qed

text \<open>The values listed by the duplicate filter are those that occur twice.\<close>

lemma duplicates_repeated:
  "x \<in> set (duplicates xs) \<longleftrightarrow> (\<exists>i j. i < j \<and> j < length xs \<and> xs ! i = x \<and> xs ! j = x)"
proof
  assume "x \<in> set (duplicates xs)"
  then obtain j where j: "j < length xs" "xs ! j = x" "indexOf xs x \<noteq> int j"
    by (auto simp: duplicates_set)
  then have "xs ! j \<in> set (take j xs)"
    using indexOf_nth [of j xs] by auto
  then obtain i where "i < j" "xs ! i = xs ! j"
    using j by (auto simp: in_set_conv_nth)
  with j show "\<exists>i j. i < j \<and> j < length xs \<and> xs ! i = x \<and> xs ! j = x" by blast
next
  assume "\<exists>i j. i < j \<and> j < length xs \<and> xs ! i = x \<and> xs ! j = x"
  then obtain i j where ij: "i < j" "j < length xs" "xs ! i = x" "xs ! j = x" by blast
  then have "xs ! j \<in> set (take j xs)"
    by (auto simp: in_set_conv_nth intro!: exI [of _ i])
  with ij have "indexOf xs (xs ! j) \<noteq> int j"
    using indexOf_nth [of j xs] by simp
  with ij show "x \<in> set (duplicates xs)"
    by (auto simp: duplicates_set)
qed

subsection \<open>Trimming and case conversion\<close>

text \<open>The string functions of the examples satisfy the laws of \<open>string_laws\<close>.\<close>

lemma is_space_lower_char: "is_space (lower_char c) = is_space c"
proof (cases "map_of (zip ''ABCDEFGHIJKLMNOPQRSTUVWXYZ'' ''abcdefghijklmnopqrstuvwxyz'') c")
  case None
  have "lower_char c = c"
    unfolding lower_char_def None by (simp only: option.case)
  then show ?thesis by (simp only:)
next
  case (Some d)
  then have "(c, d) \<in> set (zip ''ABCDEFGHIJKLMNOPQRSTUVWXYZ'' ''abcdefghijklmnopqrstuvwxyz'')"
    by (rule map_of_SomeD)
  then have ns: "\<not> is_space c \<and> \<not> is_space d"
    by (auto simp: is_space_def)
  have "lower_char c = d"
    unfolding lower_char_def Some by (simp only: option.case)
  with ns show ?thesis by (simp only:)
qed

lemma is_space_upper_char: "is_space (upper_char c) = is_space c"
proof (cases "map_of (zip ''abcdefghijklmnopqrstuvwxyz'' ''ABCDEFGHIJKLMNOPQRSTUVWXYZ'') c")
  case None
  have "upper_char c = c"
    unfolding upper_char_def None by (simp only: option.case)
  then show ?thesis by (simp only:)
next
  case (Some d)
  then have "(c, d) \<in> set (zip ''abcdefghijklmnopqrstuvwxyz'' ''ABCDEFGHIJKLMNOPQRSTUVWXYZ'')"
    by (rule map_of_SomeD)
  then have ns: "\<not> is_space c \<and> \<not> is_space d"
    by (auto simp: is_space_def)
  have "upper_char c = d"
    unfolding upper_char_def Some by (simp only: option.case)
  with ns show ?thesis by (simp only:)
qed

lemma trim_map:
  assumes "\<And>c. is_space (f c) = is_space c"
  shows "ascii_trim (map f s) = map f (ascii_trim s)"
proof -
  have "is_space \<circ> f = is_space" using assms by (simp add: fun_eq_iff)
  then show ?thesis
    by (simp add: ascii_trim_def dropWhile_map rev_map)
qed

lemma trim_toLowerCase: "ascii_trim (ascii_toLowerCase s) = ascii_toLowerCase (ascii_trim s)"
  by (simp add: ascii_toLowerCase_def trim_map is_space_lower_char)

lemma trim_toUpperCase: "ascii_trim (ascii_toUpperCase s) = ascii_toUpperCase (ascii_trim s)"
  by (simp add: ascii_toUpperCase_def trim_map is_space_upper_char)

lemma dropWhile_rev_dropWhile:
  "dropWhile P (rev (dropWhile P (rev (dropWhile P s)))) = rev (dropWhile P (rev (dropWhile P s)))"
proof -
  let ?t = "dropWhile P s"
  let ?u = "dropWhile P (rev ?t)"
  show "dropWhile P (rev ?u) = rev ?u"
  proof (cases "?u = []")
    case True
    have "dropWhile P (rev []) = rev []" by simp
    with True show ?thesis by (simp only:)
  next
    case False
    have t: "?t \<noteq> []"
    proof
      assume "?t = []"
      then have "?u = dropWhile P (rev [])" by (simp only:)
      with False show False by simp
    qed
    then have nP: "\<not> P (hd ?t)" by (rule hd_dropWhile)
    have "?t = rev ?u @ rev (takeWhile P (rev ?t))"
      by (metis rev_append rev_rev_ident takeWhile_dropWhile_id)
    moreover from False have "rev ?u \<noteq> []" by simp
    ultimately have "hd ?t = hd (rev ?u)" by (metis hd_append2)
    with nP have "\<not> P (hd (rev ?u))" by simp
    with \<open>rev ?u \<noteq> []\<close> show ?thesis
      by (cases "rev ?u") simp_all
  qed
qed

lemma trim_idem: "ascii_trim (ascii_trim s) = ascii_trim s"
  by (simp add: ascii_trim_def dropWhile_rev_dropWhile)

lemma map_of_zip_None: "d \<notin> set xs \<Longrightarrow> map_of (zip xs ys) d = None"
  by (auto simp: map_of_eq_None_iff dest: set_zip_leftD)

lemma upper_char_idem: "upper_char (upper_char c) = upper_char c"
proof (cases "map_of (zip ''abcdefghijklmnopqrstuvwxyz'' ''ABCDEFGHIJKLMNOPQRSTUVWXYZ'') c")
  case None
  have "upper_char c = c"
    unfolding upper_char_def None by (simp only: option.case)
  then show ?thesis by (simp only:)
next
  case (Some d)
  then have "(c, d) \<in> set (zip ''abcdefghijklmnopqrstuvwxyz'' ''ABCDEFGHIJKLMNOPQRSTUVWXYZ'')"
    by (rule map_of_SomeD)
  then have "d \<in> set ''ABCDEFGHIJKLMNOPQRSTUVWXYZ''"
    by (rule set_zip_rightD)
  then have "d \<notin> set ''abcdefghijklmnopqrstuvwxyz''"
    by auto
  then have *: "map_of (zip ''abcdefghijklmnopqrstuvwxyz'' ''ABCDEFGHIJKLMNOPQRSTUVWXYZ'') d = None"
    by (rule map_of_zip_None)
  have cd: "upper_char c = d"
    unfolding upper_char_def Some by (simp only: option.case)
  have "upper_char d = d"
    unfolding upper_char_def * by (simp only: option.case)
  with cd show ?thesis by (simp only:)
qed

lemma toUpperCase_idem: "ascii_toUpperCase (ascii_toUpperCase s) = ascii_toUpperCase s"
  by (simp add: ascii_toUpperCase_def upper_char_idem)

lemma example_laws: "string_laws example_env" "string_laws later_env"
  by (simp_all add: string_laws_def example_runtime trim_idem trim_toLowerCase
        trim_toUpperCase toUpperCase_idem)

text \<open>The two consequences of the laws that the keys of stored elements need.\<close>

lemma lower_key_law:
  assumes "string_laws env"
  shows "trim env (toLowerCase env (trim env s)) = trim env (toLowerCase env s)"
proof -
  from assms have "toLowerCase env (trim env s) = trim env (toLowerCase env s)"
    by (simp add: string_laws_def)
  moreover from assms have "trim env (trim env (toLowerCase env s)) = trim env (toLowerCase env s)"
    by (simp add: string_laws_def)
  ultimately show ?thesis by simp
qed

lemma upper_key_law:
  assumes "string_laws env"
  shows "trim env (toUpperCase env (trim env (toUpperCase env s))) =
         trim env (toUpperCase env s)"
proof -
  from assms have "toUpperCase env (trim env (toUpperCase env s)) =
      trim env (toUpperCase env (toUpperCase env s))"
    by (simp add: string_laws_def)
  also from assms have "\<dots> = trim env (toUpperCase env s)"
    by (simp add: string_laws_def)
  finally have "toUpperCase env (trim env (toUpperCase env s)) = trim env (toUpperCase env s)" .
  moreover from assms have "trim env (trim env (toUpperCase env s)) = trim env (toUpperCase env s)"
    by (simp add: string_laws_def)
  ultimately show ?thesis by simp
qed

subsection \<open>Mapping with errors\<close>

lemma mapE_Inr_D: "mapE f xs = Inr ys \<Longrightarrow> list_all2 (\<lambda>x y. f x = Inr y) xs ys"
  by (induction xs arbitrary: ys) (auto split: sum.splits)

lemma mapE_Inr_I: "list_all2 (\<lambda>x y. f x = Inr y) xs ys \<Longrightarrow> mapE f xs = Inr ys"
  by (induction rule: list_all2_induct) auto

lemma mapE_Inr_iff: "mapE f xs = Inr ys \<longleftrightarrow> list_all2 (\<lambda>x y. f x = Inr y) xs ys"
  using mapE_Inr_D mapE_Inr_I by blast


section \<open>Preferences\<close>

lemma ebind_Inl [simp]: "ebind (Inl e) f = Inl e"
  by (simp add: ebind_def)

lemma ebind_Inr [simp]: "ebind (Inr x) f = f x"
  by (simp add: ebind_def)

lemma ebind_eq_Inr: "ebind m f = Inr y \<longleftrightarrow> (\<exists>x. m = Inr x \<and> f x = Inr y)"
  by (cases m) simp_all

lemma call_trim_Inr: "call_trim env n = Inr t \<longleftrightarrow> (\<exists>s. n = JStr s \<and> t = trim env s)"
  by (cases n) auto

lemma call_upper_trim_Inr:
  "call_upper_trim env n = Inr t \<longleftrightarrow> (\<exists>s. n = JStr s \<and> t = trim env (toUpperCase env s))"
  by (cases n) auto

lemma build_category_name:
  "build_category env x = Inr c \<Longrightarrow> \<exists>s. getProp x ''name'' = Inr (JStr s) \<and> c_name c = trim env s"
  by (auto simp: build_category_def ebind_eq_Inr call_trim_Inr)

lemma build_productType_name:
  "build_productType env x = Inr c \<Longrightarrow> \<exists>s. getProp x ''name'' = Inr (JStr s) \<and> pt_name c = trim env s"
  by (auto simp: build_productType_def ebind_eq_Inr call_trim_Inr)

lemma build_unit_abbreviation:
  "build_unit env x = Inr u \<Longrightarrow>
   \<exists>s. getProp x ''abbreviation'' = Inr (JStr s) \<and> um_abbreviation u = trim env (toUpperCase env s)"
  by (auto simp: build_unit_def ebind_eq_Inr call_trim_Inr call_upper_trim_Inr)

lemma build_category_key:
  "string_laws env \<Longrightarrow> categoryKey env x = Inr k \<Longrightarrow> build_category env x = Inr c \<Longrightarrow>
   k = Some (trim env (toLowerCase env (c_name c)))"
  using build_category_name [of env x c]
  by (auto simp: categoryKey_def lower_key_law)

lemma build_productType_key:
  "string_laws env \<Longrightarrow> categoryKey env x = Inr k \<Longrightarrow> build_productType env x = Inr c \<Longrightarrow>
   k = Some (trim env (toLowerCase env (pt_name c)))"
  using build_productType_name [of env x c]
  by (auto simp: categoryKey_def lower_key_law)

lemma build_unit_key:
  "string_laws env \<Longrightarrow> unitKey env x = Inr k \<Longrightarrow> build_unit env x = Inr u \<Longrightarrow>
   k = Some (trim env (toUpperCase env (um_abbreviation u)))"
  using build_unit_abbreviation [of env x u]
  by (auto simp: unitKey_def upper_key_law)

lemma built_keys:
  assumes "mapE key xs = Inr ks" "mapE build xs = Inr ys"
    and "\<And>x k y. key x = Inr k \<Longrightarrow> build x = Inr y \<Longrightarrow> k = Some (skey y)"
  shows "ks = map (\<lambda>y. Some (skey y)) ys"
  using assms(1,2)
proof (induction xs arbitrary: ks ys)
  case Nil
  then show ?case by simp
next
  case (Cons x xs)
  then show ?case
    by (auto split: sum.splits dest: assms(3))
qed

lemma distinct_map_Some: "distinct (map (\<lambda>y. Some (f y)) ys) \<longleftrightarrow> distinct (map f ys)"
  by (simp add: distinct_map inj_on_def)

lemma process_collection_Inr:
  assumes "process_collection m1 m2 key chk build v = Inr ys"
  shows "\<exists>xs ks. v = JArr xs \<and> mapE key xs = Inr ks \<and> distinct ks \<and> mapE build xs = Inr ys"
  using assms
  by (cases v)
     (auto simp: process_collection_def duplicates_empty_iff
        split: sum.splits option.splits if_splits)

lemma process_collection_duplicate:
  assumes "mapE key xs = Inr ks" "\<not> distinct ks"
  shows "process_collection m1 m2 key chk build (JArr xs) =
           Inl (failure 400 (m2 @ join_keys (duplicates ks)))"
  using assms by (simp add: process_collection_def duplicates_empty_iff)

lemma defined_keys_mapE:
  "mapE key xs = Inr ks \<Longrightarrow> defined_keys key xs = List.map_filter (\<lambda>k. k) ks"
  by (induction xs arbitrary: ks) (auto simp: defined_keys_def map_filter_simps split: sum.splits option.splits)

lemma distinct_map_filter_id: "distinct ks \<Longrightarrow> distinct (List.map_filter (\<lambda>k. k) ks)"
  by (auto simp: map_filter_def distinct_map inj_on_def)

lemma process_collection_repeats:
  assumes "repeats_key key v"
  shows "\<exists>r. process_collection m1 m2 key chk build v = Inl r"
proof -
  from assms obtain xs where v: "v = JArr xs" and nd: "\<not> distinct (defined_keys key xs)"
    by (cases v) (auto simp: repeats_key_def)
  show ?thesis
  proof (cases "mapE key xs")
    case (Inl e)
    with v show ?thesis by (simp add: process_collection_def)
  next
    case (Inr ks)
    with nd have "\<not> distinct ks"
      using defined_keys_mapE [OF Inr] distinct_map_filter_id [of ks] by auto
    with Inr v show ?thesis by (simp add: process_collection_duplicate)
  qed
qed


lemma process_collection_Inl:
  "process_collection m1 m2 key chk build v = Inl r \<Longrightarrow> \<not> is_success r"
  by (cases v)
     (auto simp: process_collection_def failure_def split: sum.splits option.splits if_splits)

lemma update_categories_Inl: "update_categories env v b = Inl r \<Longrightarrow> \<not> is_success r"
  by (auto simp: update_categories_def process_categories_def
        split: if_splits sum.splits option.splits dest: process_collection_Inl)

lemma update_units_Inl: "update_units env v b = Inl r \<Longrightarrow> \<not> is_success r"
  by (auto simp: update_units_def process_units_def
        split: if_splits sum.splits option.splits dest: process_collection_Inl)

lemma update_productTypes_Inl: "update_productTypes env v b = Inl r \<Longrightarrow> \<not> is_success r"
  by (auto simp: update_productTypes_def process_productTypes_def
        split: if_splits sum.splits option.splits dest: process_collection_Inl)

subsection \<open>The effect of a replace request\<close>

lemma update_categories_effect:
  assumes "update_categories env v b = Inr b'"
  shows "b_id b' = b_id b"
    and "truthy v \<Longrightarrow> \<exists>cs. process_categories env v = Inr cs"
    and "categories (read_preferences b') =
           (if truthy v then projr (process_categories env v)
            else categories (read_preferences b))"
    and "units (read_preferences b') = units (read_preferences b)"
    and "productTypes (read_preferences b') = productTypes (read_preferences b)"
  using assms
  by (auto simp: update_categories_def read_preferences_def split: if_splits sum.splits)

lemma update_units_effect:
  assumes "update_units env v b = Inr b'"
  shows "b_id b' = b_id b"
    and "truthy v \<Longrightarrow> \<exists>us. process_units env v = Inr us"
    and "units (read_preferences b') =
           (if truthy v then projr (process_units env v) else units (read_preferences b))"
    and "categories (read_preferences b') = categories (read_preferences b)"
    and "productTypes (read_preferences b') = productTypes (read_preferences b)"
  using assms
  by (auto simp: update_units_def read_preferences_def split: if_splits sum.splits)

lemma update_productTypes_effect:
  assumes "update_productTypes env v b = Inr b'"
  shows "b_id b' = b_id b"
    and "truthy v \<Longrightarrow> \<exists>ts. process_productTypes env v = Inr ts"
    and "productTypes (read_preferences b') =
           (if truthy v then projr (process_productTypes env v)
            else productTypes (read_preferences b))"
    and "categories (read_preferences b') = categories (read_preferences b)"
    and "units (read_preferences b') = units (read_preferences b)"
  using assms
  by (auto simp: update_productTypes_def read_preferences_def split: if_splits sum.splits)

lemma updates_ok_id: "updates_ok env req b b3 \<Longrightarrow> b_id b3 = b_id b"
  unfolding updates_ok_def
  using update_categories_effect(1) update_units_effect(1) update_productTypes_effect(1)
  by fastforce

lemma updates_ok_preferences:
  assumes ok: "updates_ok env req b b3"
  shows "categories (read_preferences b3) =
           (if truthy (pr_categories req)
            then projr (process_categories env (pr_categories req))
            else categories (read_preferences b))"
    and "units (read_preferences b3) =
           (if truthy (pr_units req)
            then projr (process_units env (pr_units req)) else units (read_preferences b))"
    and "productTypes (read_preferences b3) =
           (if truthy (pr_productTypes req)
            then projr (process_productTypes env (pr_productTypes req))
            else productTypes (read_preferences b))"
proof -
  from ok obtain b1 b2 where
    c: "update_categories env (pr_categories req) b = Inr b1" and
    u: "update_units env (pr_units req) b1 = Inr b2" and
    t: "update_productTypes env (pr_productTypes req) b2 = Inr b3"
    unfolding updates_ok_def by blast
  note ce = update_categories_effect [OF c]
  note ue = update_units_effect [OF u]
  note te = update_productTypes_effect [OF t]
  show "categories (read_preferences b3) =
           (if truthy (pr_categories req)
            then projr (process_categories env (pr_categories req))
            else categories (read_preferences b))"
    using ce(3) ue(4) te(4) by simp
  show "units (read_preferences b3) =
           (if truthy (pr_units req)
            then projr (process_units env (pr_units req)) else units (read_preferences b))"
    using ce(4) ue(3) te(5) by simp
  show "productTypes (read_preferences b3) =
           (if truthy (pr_productTypes req)
            then projr (process_productTypes env (pr_productTypes req))
            else productTypes (read_preferences b))"
    using ce(5) ue(5) te(3) by simp
qed

lemma updates_ok_processed:
  assumes ok: "updates_ok env req b b3"
  shows "truthy (pr_categories req) \<Longrightarrow>
           \<exists>cs. process_categories env (pr_categories req) = Inr cs"
    and "truthy (pr_units req) \<Longrightarrow>
           \<exists>us. process_units env (pr_units req) = Inr us"
    and "truthy (pr_productTypes req) \<Longrightarrow>
           \<exists>ts. process_productTypes env (pr_productTypes req) = Inr ts"
  using ok unfolding updates_ok_def
  using update_categories_effect(2) update_units_effect(2) update_productTypes_effect(2)
  by blast+

lemma Business_save_loaded:
  "Business_save env k True store \<lparr>bd_fields = b, bd_isNew = False\<rparr> =
     (if validation_errors env k \<noteq> [] then Inl (ValidationError (validation_errors env k))
      else case write_error env k of
             Some e \<Rightarrow> Inl e
           | None \<Rightarrow>
               Inr (\<lparr>bd_fields = b, bd_isNew = False\<rparr>,
                    store\<lparr>businesses :=
                      map (\<lambda>x. if b_id x = b_id b then b else x) (businesses store)\<rparr>))"
  by (simp add: Business_save_def business_pre_save_def stamp_business_def Let_def
        split: option.splits)

lemma updatePreferences_found:
  assumes "pr_business req = Some bid" "read_error env = None"
    "stored_business store bid = Some b"
    "truthy (pr_categories req) \<or> truthy (pr_units req) \<or> truthy (pr_productTypes req)"
  shows "updatePreferences env store req =
          (case update_categories env (pr_categories req) b of
             Inl r \<Rightarrow> (r, store)
           | Inr b1 \<Rightarrow>
          (case update_units env (pr_units req) b1 of
             Inl r \<Rightarrow> (r, store)
           | Inr b2 \<Rightarrow>
          (case update_productTypes env (pr_productTypes req) b2 of
             Inl r \<Rightarrow> (r, store)
           | Inr b3 \<Rightarrow>
          (case Business_save env 0 True store \<lparr>bd_fields = b3, bd_isNew = False\<rparr> of
             Inl e \<Rightarrow> (Next e, store)
           | Inr (saved, store') \<Rightarrow>
               (Json 200 True ''Preferences updated successfully'' []
                  (PreferencesData (read_preferences (bd_fields saved))
                     (compute_stats (read_preferences (bd_fields saved)))),
                store')))))"
  using assms
  by (simp add: updatePreferences_def Business_findById_def stored_business_def) blast

lemma updatePreferences_result:
  "(\<not> is_success (fst (updatePreferences env store req)) \<and>
    snd (updatePreferences env store req) = store) \<or>
   (\<exists>bid b b3.
      pr_business req = Some bid \<and> read_error env = None \<and> save_accepted env \<and>
      stored_business store bid = Some b \<and>
      (truthy (pr_categories req) \<or> truthy (pr_units req) \<or> truthy (pr_productTypes req)) \<and>
      updates_ok env req b b3 \<and>
      updatePreferences env store req =
        (Json 200 True ''Preferences updated successfully'' []
           (PreferencesData (read_preferences b3) (compute_stats (read_preferences b3))),
         store\<lparr>businesses := map (\<lambda>x. if b_id x = bid then b3 else x) (businesses store)\<rparr>))"
proof (cases "pr_business req")
  case None
  then show ?thesis by (simp add: updatePreferences_def)
next
  case (Some bid)
  show ?thesis
  proof (cases "Business_findById env store bid")
    case (Inl e)
    with Some show ?thesis by (simp add: updatePreferences_def)
  next
    case (Inr found)
    then have re: "read_error env = None" and f: "found = stored_business store bid"
      by (auto simp: Business_findById_def stored_business_def split: option.splits)
    show ?thesis
    proof (cases found)
      case None
      with Some Inr show ?thesis by (simp add: updatePreferences_def)
    next
      case found_b: (Some b)
      with f have fb: "stored_business store bid = Some b" by simp
      then have idb: "b_id b = bid"
        by (auto simp: stored_business_def find_Some_iff)
      show ?thesis
      proof (cases "truthy (pr_categories req) \<or> truthy (pr_units req) \<or> truthy (pr_productTypes req)")
        case False
        with Some Inr found_b show ?thesis by (simp add: updatePreferences_def)
      next
        case tr: True
        note up = updatePreferences_found [OF Some re fb tr]
        show ?thesis
        proof (cases "update_categories env (pr_categories req) b")
          case (Inl r)
          with up show ?thesis by (simp add: update_categories_Inl)
        next
          case c: (Inr b1)
          show ?thesis
          proof (cases "update_units env (pr_units req) b1")
            case (Inl r)
            with up c show ?thesis by (simp add: update_units_Inl)
          next
            case u: (Inr b2)
            show ?thesis
            proof (cases "update_productTypes env (pr_productTypes req) b2")
              case (Inl r)
              with up c u show ?thesis by (simp add: update_productTypes_Inl)
            next
              case t: (Inr b3)
              from c u t have ok: "updates_ok env req b b3"
                unfolding updates_ok_def by blast
              from updates_ok_id [OF ok] idb have id3: "b_id b3 = bid" by simp
              show ?thesis
              proof (cases "save_accepted env")
                case False
                then have "\<not> is_success (fst (updatePreferences env store req)) \<and>
                  snd (updatePreferences env store req) = store"
                  using up c u t
                  by (auto simp: Business_save_loaded save_accepted_def split: option.splits)
                then show ?thesis by blast
              next
                case True
                then have "updatePreferences env store req =
                  (Json 200 True ''Preferences updated successfully'' []
                     (PreferencesData (read_preferences b3)
                        (compute_stats (read_preferences b3))),
                   store\<lparr>businesses :=
                     map (\<lambda>x. if b_id x = bid then b3 else x) (businesses store)\<rparr>)"
                  using up c u t id3
                  by (simp add: Business_save_loaded save_accepted_def)
                with Some re True fb tr ok show ?thesis by blast
              qed
            qed
          qed
        qed
      qed
    qed
  qed
qed

subsection \<open>Collections that are not supplied\<close>

lemma find_replace:
  assumes "f y = i"
  shows "find (\<lambda>x. f x = j) (map (\<lambda>x. if f x = i then y else x) xs) =
         (if j = i then map_option (\<lambda>x. y) (find (\<lambda>x. f x = i) xs)
          else find (\<lambda>x. f x = j) xs)"
  using assms by (induction xs) auto

lemma stored_business_replace:
  assumes "b_id b3 = bid"
  shows "stored_business
           (store\<lparr>businesses := map (\<lambda>x. if b_id x = bid then b3 else x) (businesses store)\<rparr>) i =
         (if i = bid then map_option (\<lambda>x. b3) (stored_business store bid)
          else stored_business store i)"
  using find_replace [of b_id b3 bid i "businesses store"] assms
  by (simp add: stored_business_def)

lemma updatePreferences_failure:
  "\<not> is_success (fst (updatePreferences env store req)) \<Longrightarrow>
   snd (updatePreferences env store req) = store"
  using updatePreferences_result [of env store req] by auto

lemma updatePreferences_success:
  assumes "is_success (fst (updatePreferences env store req))"
  shows "\<exists>bid b b3 p p3.
      pr_business req = Some bid \<and> read_error env = None \<and> save_accepted env \<and>
      stored_business store bid = Some b \<and>
      (truthy (pr_categories req) \<or> truthy (pr_units req) \<or> truthy (pr_productTypes req)) \<and>
      updates_ok env req b b3 \<and>
      stored_preferences store bid = Some p \<and>
      stored_preferences (snd (updatePreferences env store req)) bid = Some p3 \<and>
      (\<forall>i. i \<noteq> bid \<longrightarrow>
         stored_business (snd (updatePreferences env store req)) i = stored_business store i) \<and>
      categories p3 =
        (if truthy (pr_categories req)
         then projr (process_categories env (pr_categories req)) else categories p) \<and>
      units p3 =
        (if truthy (pr_units req)
         then projr (process_units env (pr_units req)) else units p) \<and>
      productTypes p3 =
        (if truthy (pr_productTypes req)
         then projr (process_productTypes env (pr_productTypes req))
         else productTypes p)"
proof -
  from updatePreferences_result [of env store req] assms
  obtain bid b b3 where
    h: "pr_business req = Some bid" "read_error env = None" "save_accepted env"
       "stored_business store bid = Some b"
       "truthy (pr_categories req) \<or> truthy (pr_units req) \<or> truthy (pr_productTypes req)"
       "updates_ok env req b b3"
    and r: "updatePreferences env store req =
        (Json 200 True ''Preferences updated successfully'' []
           (PreferencesData (read_preferences b3) (compute_stats (read_preferences b3))),
         store\<lparr>businesses := map (\<lambda>x. if b_id x = bid then b3 else x) (businesses store)\<rparr>)"
    by blast
  from h(4) have "b_id b = bid"
    by (auto simp: stored_business_def find_Some_iff)
  with updates_ok_id [OF h(6)] have id3: "b_id b3 = bid" by simp
  note p = updates_ok_preferences [OF h(6)]
  have a: "stored_preferences store bid = Some (read_preferences b)"
    using h(4) by (simp add: stored_preferences_def)
  have b: "stored_preferences (snd (updatePreferences env store req)) bid =
      Some (read_preferences b3)"
    using h(4) by (simp add: r stored_preferences_def stored_business_replace [OF id3])
  have c: "\<forall>i. i \<noteq> bid \<longrightarrow>
         stored_business (snd (updatePreferences env store req)) i = stored_business store i"
    by (simp add: r stored_business_replace [OF id3])
  from h a b c p show ?thesis by blast
qed



text \<open>
  Claim C5. Whatever the outcome of a replace request, a collection that the request
  does not supply (the entry is absent, or falsy) is the same in the stored business
  before and after the call; this holds for the business of the caller and for every
  other business \<open>i\<close>. The collections of a stored business are those that a document
  loaded from it shows: a business stored without preferences has three empty
  collections, and keeps the empty collections that a request does not supply.
\<close>

theorem updatePreferences_frame:
  "(\<not> truthy (pr_categories req) \<longrightarrow>
      map_option categories (stored_preferences (snd (updatePreferences env store req)) i) =
      map_option categories (stored_preferences store i)) \<and>
   (\<not> truthy (pr_units req) \<longrightarrow>
      map_option units (stored_preferences (snd (updatePreferences env store req)) i) =
      map_option units (stored_preferences store i)) \<and>
   (\<not> truthy (pr_productTypes req) \<longrightarrow>
      map_option productTypes (stored_preferences (snd (updatePreferences env store req)) i) =
      map_option productTypes (stored_preferences store i))"
proof (cases "is_success (fst (updatePreferences env store req))")
  case False
  then show ?thesis by (simp add: updatePreferences_failure)
next
  case True
  from updatePreferences_success [OF True] obtain bid p p3 where
    h: "stored_preferences store bid = Some p"
       "stored_preferences (snd (updatePreferences env store req)) bid = Some p3"
       "\<forall>i. i \<noteq> bid \<longrightarrow>
         stored_business (snd (updatePreferences env store req)) i = stored_business store i"
       "categories p3 =
        (if truthy (pr_categories req)
         then projr (process_categories env (pr_categories req)) else categories p)"
       "units p3 =
        (if truthy (pr_units req)
         then projr (process_units env (pr_units req)) else units p)"
       "productTypes p3 =
        (if truthy (pr_productTypes req)
         then projr (process_productTypes env (pr_productTypes req))
         else productTypes p)"
    by blast
  show ?thesis
  proof (cases "i = bid")
    case True
    with h show ?thesis by simp
  next
    case False
    with h(3) show ?thesis by (simp add: stored_preferences_def)
  qed
qed

subsection \<open>Replace requests on the example store\<close>

lemma shop_db_eq:
  "shop_db =
     \<lparr>users = [john_user],
      businesses = [john_business\<lparr>b_preferences := Some (default_preferences 1000)\<rparr>]\<rparr>"
  "legacy_db = \<lparr>users = [john_user], businesses = [john_business\<lparr>b_preferences := None\<rparr>]\<rparr>"
  by (simp_all add: shop_db_def legacy_db_def john_db_eq)

lemma shop_db_business:
  "stored_business shop_db 2 =
     Some (john_business\<lparr>b_preferences := Some (default_preferences 1000)\<rparr>)"
  "stored_business legacy_db 2 = Some (john_business\<lparr>b_preferences := None\<rparr>)"
  "stored_business john_db 2 = Some john_business"
  by (simp_all add: shop_db_eq john_db_eq stored_business_def john_business_def)

lemma shop_db_found:
  "Business_findById later_env shop_db 2 =
     Inr (Some (john_business\<lparr>b_preferences := Some (default_preferences 1000)\<rparr>))"
  "Business_findById later_env legacy_db 2 = Inr (Some (john_business\<lparr>b_preferences := None\<rparr>))"
  "Business_findById later_env john_db 2 = Inr (Some john_business)"
  using shop_db_business
  by (simp_all add: Business_findById_def later_env_fields stored_business_def)

lemma shop_db_preferences:
  "stored_preferences shop_db 2 = Some (default_preferences 1000)"
  "stored_preferences legacy_db 2 = Some \<lparr>categories = [], units = [], productTypes = []\<rparr>"
  "stored_preferences john_db 2 = Some \<lparr>categories = [], units = [], productTypes = []\<rparr>"
  by (simp_all add: stored_preferences_def shop_db_business read_preferences_def)
     (simp add: john_business_def)

lemma ascii_bx:
  "ascii_trim (ascii_toUpperCase ''bx'') = ''BX''" "ascii_trim (ascii_toUpperCase ''BX'') = ''BX''"
  "ascii_trim ''Box'' = ''Box''" "ascii_trim ''Pack'' = ''Pack''"
  "ascii_trim ''Gadget'' = ''Gadget''" "ascii_trim ''bx'' = ''bx''" "ascii_trim ''BX'' = ''BX''"
  "ascii_trim (ascii_toLowerCase ''Gadget'') = ''gadget''"
  "ascii_trim ''Tools'' = ''Tools''" "ascii_trim '' tools '' = ''tools''"
  "ascii_trim (ascii_toLowerCase ''Tools'') = ''tools''"
  "ascii_trim (ascii_toLowerCase '' tools '') = ''tools''"
  by code_simp+

lemma units_only_fields:
  "pr_business units_only = Some 2" "pr_categories units_only = JUndefined"
  "pr_productTypes units_only = JUndefined" "truthy (pr_units units_only)"
  by (simp_all add: units_only_def)

lemma box_unit:
  "process_units later_env (pr_units units_only) =
     Inr [\<lparr>um_name = ''Box'', um_abbreviation = ''BX'', um_type = JStr ''quantity'',
           um_isActive = JBool True, um_createdAt = JDate 2000\<rparr>]"
  by (simp add: units_only_def process_units_def process_collection_def unitKey_def
        duplicates_def indexOf_def check_unit_def blank_field_def build_unit_def
        example_runtime ascii_bx js_or_def defined_or_def later_env_fields)

lemma units_only_result:
  "updatePreferences later_env shop_db units_only =
     (Json 200 True ''Preferences updated successfully'' []
        (PreferencesData
           ((default_preferences 1000)
              \<lparr>units := [\<lparr>um_name = ''Box'', um_abbreviation = ''BX'',
                          um_type = JStr ''quantity'', um_isActive = JBool True,
                          um_createdAt = JDate 2000\<rparr>]\<rparr>)
           \<lparr>totalCategories = 3, activeCategories = 3, totalUnits = 1, activeUnits = 1,
            totalProductTypes = 3, activeProductTypes = 3\<rparr>),
      shop_db\<lparr>businesses :=
        [john_business
           \<lparr>b_preferences := Some ((default_preferences 1000)
              \<lparr>units := [\<lparr>um_name = ''Box'', um_abbreviation = ''BX'',
                          um_type = JStr ''quantity'', um_isActive = JBool True,
                          um_createdAt = JDate 2000\<rparr>]\<rparr>)\<rparr>]\<rparr>)"
  by (simp add: updatePreferences_def units_only_fields shop_db_found box_unit
        update_categories_def update_units_def update_productTypes_def Business_save_loaded
        later_env_fields read_preferences_def)
     (simp add: compute_stats_def cast_true_def default_preferences_def
        default_categories_def default_units_def default_productTypes_def shop_db_eq
        john_business_def)

lemma legacy_units_only_result:
  "updatePreferences later_env legacy_db units_only =
     (Json 200 True ''Preferences updated successfully'' []
        (PreferencesData
           \<lparr>categories = [],
            units = [\<lparr>um_name = ''Box'', um_abbreviation = ''BX'',
                      um_type = JStr ''quantity'', um_isActive = JBool True,
                      um_createdAt = JDate 2000\<rparr>],
            productTypes = []\<rparr>
           \<lparr>totalCategories = 0, activeCategories = 0, totalUnits = 1, activeUnits = 1,
            totalProductTypes = 0, activeProductTypes = 0\<rparr>),
      legacy_db\<lparr>businesses :=
        [john_business
           \<lparr>b_preferences := Some
              \<lparr>categories = [],
               units = [\<lparr>um_name = ''Box'', um_abbreviation = ''BX'',
                         um_type = JStr ''quantity'', um_isActive = JBool True,
                         um_createdAt = JDate 2000\<rparr>],
               productTypes = []\<rparr>\<rparr>]\<rparr>)"
  by (simp add: updatePreferences_def units_only_fields shop_db_found box_unit
        update_categories_def update_units_def update_productTypes_def Business_save_loaded
        later_env_fields read_preferences_def)
     (simp add: compute_stats_def cast_true_def shop_db_eq john_business_def)

lemma john_units_only_result:
  "updatePreferences later_env john_db units_only =
     (Json 200 True ''Preferences updated successfully'' []
        (PreferencesData
           \<lparr>categories = [],
            units = [\<lparr>um_name = ''Box'', um_abbreviation = ''BX'',
                      um_type = JStr ''quantity'', um_isActive = JBool True,
                      um_createdAt = JDate 2000\<rparr>],
            productTypes = []\<rparr>
           \<lparr>totalCategories = 0, activeCategories = 0, totalUnits = 1, activeUnits = 1,
            totalProductTypes = 0, activeProductTypes = 0\<rparr>),
      john_db\<lparr>businesses :=
        [john_business
           \<lparr>b_preferences := Some
              \<lparr>categories = [],
               units = [\<lparr>um_name = ''Box'', um_abbreviation = ''BX'',
                         um_type = JStr ''quantity'', um_isActive = JBool True,
                         um_createdAt = JDate 2000\<rparr>],
               productTypes = []\<rparr>\<rparr>]\<rparr>)"
  by (simp add: updatePreferences_def units_only_fields shop_db_found box_unit
        update_categories_def update_units_def update_productTypes_def Business_save_loaded
        later_env_fields read_preferences_def)
     (simp add: compute_stats_def cast_true_def john_db_eq john_business_def)

theorem updatePreferences_frame_witness:
  "\<not> truthy (pr_categories units_only) \<and> \<not> truthy (pr_productTypes units_only) \<and>
   truthy (pr_units units_only) \<and>
   is_success (fst (updatePreferences later_env shop_db units_only)) \<and>
   map_option categories (stored_preferences (snd (updatePreferences later_env shop_db units_only)) 2)
     = Some (default_categories 1000) \<and>
   map_option productTypes
     (stored_preferences (snd (updatePreferences later_env shop_db units_only)) 2)
     = Some (default_productTypes 1000) \<and>
   map_option (map um_abbreviation \<circ> units)
     (stored_preferences (snd (updatePreferences later_env shop_db units_only)) 2)
     = Some [''BX''] \<and>
   is_success (fst (updatePreferences later_env legacy_db units_only)) \<and>
   map_option categories (stored_preferences legacy_db 2) = Some [] \<and>
   map_option categories
     (stored_preferences (snd (updatePreferences later_env legacy_db units_only)) 2) = Some [] \<and>
   map_option productTypes
     (stored_preferences (snd (updatePreferences later_env legacy_db units_only)) 2) = Some [] \<and>
   map_option (map um_abbreviation \<circ> units)
     (stored_preferences (snd (updatePreferences later_env legacy_db units_only)) 2)
     = Some [''BX'']"
proof -
  have a: "\<not> truthy (pr_categories units_only) \<and> \<not> truthy (pr_productTypes units_only) \<and>
    truthy (pr_units units_only)"
    by (simp add: units_only_def)
  have b: "is_success (fst (updatePreferences later_env shop_db units_only))"
    "is_success (fst (updatePreferences later_env legacy_db units_only))"
    by (simp_all add: units_only_result legacy_units_only_result)
  have c: "map_option (map um_abbreviation \<circ> units)
     (stored_preferences (snd (updatePreferences later_env shop_db units_only)) 2)
     = Some [''BX'']"
    "map_option (map um_abbreviation \<circ> units)
     (stored_preferences (snd (updatePreferences later_env legacy_db units_only)) 2)
     = Some [''BX'']"
    by (simp_all add: units_only_result legacy_units_only_result stored_preferences_def
          stored_business_def read_preferences_def john_business_def)
  from a b c show ?thesis
    using updatePreferences_frame [of units_only later_env shop_db 2]
      updatePreferences_frame [of units_only later_env legacy_db 2]
    by (simp add: shop_db_preferences default_preferences_def)
qed

subsection \<open>Defaults of a product type\<close>

lemma build_productType_omitted:
  assumes "omits_booleans x" "build_productType env x = Inr y"
  shows "pt_requiresSerialNumber y = JBool False \<and> pt_requiresExpiryDate y = JBool False \<and>
         pt_trackInventory y = JBool True"
proof -
  from assms(1) obtain kvs where x: "x = JObj kvs"
    and o: "map_of kvs ''requiresSerialNumber'' = None" "map_of kvs ''requiresExpiryDate'' = None"
      "map_of kvs ''trackInventory'' = None"
    by (cases x) (auto simp: omits_booleans_def)
  from assms(2) show ?thesis
    unfolding x build_productType_def
    by (auto simp: ebind_eq_Inr o js_or_def defined_or_def)
qed

lemma process_productTypes_Inr:
  assumes "process_productTypes env (JArr pts) = Inr ts"
  shows "list_all2 (\<lambda>x y. build_productType env x = Inr y) pts ts"
  using process_collection_Inr [OF assms [unfolded process_productTypes_def]]
  by (auto simp: mapE_Inr_iff)

text \<open>
  Claim C7, as amended. After a successful replace request that supplies product types,
  the stored collection has one element per submitted element, and an element submitted
  without the three boolean fields is stored with requires-serial-number false,
  requires-expiry-date false and track-inventory true (the defaults of the schema).
\<close>

theorem productType_boolean_defaults:
  "is_success (fst (updatePreferences env store req)) \<and>
   pr_business req = Some bid \<and> pr_productTypes req = JArr pts
   \<longrightarrow> (\<exists>p. stored_preferences (snd (updatePreferences env store req)) bid = Some p \<and>
            length (productTypes p) = length pts \<and>
            (\<forall>i<length pts. omits_booleans (pts ! i) \<longrightarrow>
               pt_requiresSerialNumber (productTypes p ! i) = JBool False \<and>
               pt_requiresExpiryDate (productTypes p ! i) = JBool False \<and>
               pt_trackInventory (productTypes p ! i) = JBool True))"
proof (intro impI, elim conjE)
  assume s: "is_success (fst (updatePreferences env store req))"
    and b: "pr_business req = Some bid" and v: "pr_productTypes req = JArr pts"
  from updatePreferences_success [OF s] b v obtain b0 b3 p3 where
    ok: "updates_ok env req b0 b3" and
    st: "stored_preferences (snd (updatePreferences env store req)) bid = Some p3" and
    pt: "productTypes p3 = projr (process_productTypes env (JArr pts))"
    by auto
  from updates_ok_processed(3) [OF ok] v obtain ts where
    ts: "process_productTypes env (JArr pts) = Inr ts"
    by auto
  with pt have eq: "productTypes p3 = ts" by simp
  from process_productTypes_Inr [OF ts]
  have all: "list_all2 (\<lambda>x y. build_productType env x = Inr y) pts ts" .
  then have len: "length ts = length pts"
    by (simp add: list_all2_lengthD)
  have "\<forall>i<length pts. omits_booleans (pts ! i) \<longrightarrow>
               pt_requiresSerialNumber (ts ! i) = JBool False \<and>
               pt_requiresExpiryDate (ts ! i) = JBool False \<and>
               pt_trackInventory (ts ! i) = JBool True"
  proof (intro allI impI)
    fix i assume "i < length pts" "omits_booleans (pts ! i)"
    with list_all2_nthD [OF all, of i]
    have "build_productType env (pts ! i) = Inr (ts ! i)"
      by simp
    with \<open>omits_booleans (pts ! i)\<close> show
      "pt_requiresSerialNumber (ts ! i) = JBool False \<and>
               pt_requiresExpiryDate (ts ! i) = JBool False \<and>
               pt_trackInventory (ts ! i) = JBool True"
      by (rule build_productType_omitted)
  qed
  with st eq len show "\<exists>p. stored_preferences (snd (updatePreferences env store req)) bid = Some p \<and>
            length (productTypes p) = length pts \<and>
            (\<forall>i<length pts. omits_booleans (pts ! i) \<longrightarrow>
               pt_requiresSerialNumber (productTypes p ! i) = JBool False \<and>
               pt_requiresExpiryDate (productTypes p ! i) = JBool False \<and>
               pt_trackInventory (productTypes p ! i) = JBool True)"
    by auto
qed

lemma gadget_only_fields:
  "pr_business gadget_only = Some 2" "pr_categories gadget_only = JUndefined"
  "pr_units gadget_only = JUndefined" "truthy (pr_productTypes gadget_only)"
  by (simp_all add: gadget_only_def)

lemma gadget_type:
  "process_productTypes later_env (pr_productTypes gadget_only) =
     Inr [\<lparr>pt_name = ''Gadget'', pt_description = [],
           pt_requiresSerialNumber = JBool False, pt_requiresExpiryDate = JBool False,
           pt_trackInventory = JBool True, pt_isActive = JBool True,
           pt_createdAt = JDate 2000\<rparr>]"
  by (simp add: gadget_only_def process_productTypes_def process_collection_def categoryKey_def
        duplicates_def indexOf_def check_productType_def blank_field_def build_productType_def
        example_runtime ascii_bx js_or_def defined_or_def later_env_fields)

lemma gadget_only_result:
  "updatePreferences later_env shop_db gadget_only =
     (Json 200 True ''Preferences updated successfully'' []
        (PreferencesData
           ((default_preferences 1000)
              \<lparr>productTypes := [\<lparr>pt_name = ''Gadget'', pt_description = [],
                          pt_requiresSerialNumber = JBool False,
                          pt_requiresExpiryDate = JBool False,
                          pt_trackInventory = JBool True, pt_isActive = JBool True,
                          pt_createdAt = JDate 2000\<rparr>]\<rparr>)
           \<lparr>totalCategories = 3, activeCategories = 3, totalUnits = 4, activeUnits = 4,
            totalProductTypes = 1, activeProductTypes = 1\<rparr>),
      shop_db\<lparr>businesses :=
        [john_business
           \<lparr>b_preferences := Some ((default_preferences 1000)
              \<lparr>productTypes := [\<lparr>pt_name = ''Gadget'', pt_description = [],
                          pt_requiresSerialNumber = JBool False,
                          pt_requiresExpiryDate = JBool False,
                          pt_trackInventory = JBool True, pt_isActive = JBool True,
                          pt_createdAt = JDate 2000\<rparr>]\<rparr>)\<rparr>]\<rparr>)"
  by (simp add: updatePreferences_def gadget_only_fields shop_db_found gadget_type
        update_categories_def update_units_def update_productTypes_def Business_save_loaded
        later_env_fields read_preferences_def)
     (simp add: compute_stats_def cast_true_def default_preferences_def
        default_categories_def default_units_def default_productTypes_def shop_db_eq
        john_business_def)

lemma gadget_only_stored:
  "map_option productTypes
     (stored_preferences (snd (updatePreferences later_env shop_db gadget_only)) 2) =
   Some [\<lparr>pt_name = ''Gadget'', pt_description = [],
          pt_requiresSerialNumber = JBool False, pt_requiresExpiryDate = JBool False,
          pt_trackInventory = JBool True, pt_isActive = JBool True,
          pt_createdAt = JDate 2000\<rparr>]"
  by (simp add: gadget_only_result stored_preferences_def stored_business_def
        read_preferences_def john_business_def)

theorem productType_boolean_defaults_witness:
  "is_success (fst (updatePreferences later_env shop_db gadget_only)) \<and>
   pr_productTypes gadget_only = JArr [JObj [(''name'', JStr ''Gadget'')]] \<and>
   omits_booleans (JObj [(''name'', JStr ''Gadget'')]) \<and>
   (\<exists>p. stored_preferences (snd (updatePreferences later_env shop_db gadget_only)) 2 = Some p \<and>
        length (productTypes p) = 1 \<and>
        pt_requiresSerialNumber (productTypes p ! 0) = JBool False \<and>
        pt_requiresExpiryDate (productTypes p ! 0) = JBool False \<and>
        pt_trackInventory (productTypes p ! 0) = JBool True)"
proof -
  have a: "is_success (fst (updatePreferences later_env shop_db gadget_only))"
    by (simp add: gadget_only_result)
  have b: "pr_business gadget_only = Some 2"
    "pr_productTypes gadget_only = JArr [JObj [(''name'', JStr ''Gadget'')]]"
    by (simp_all add: gadget_only_def)
  have c: "omits_booleans (JObj [(''name'', JStr ''Gadget'')])"
    by (simp add: omits_booleans_def)
  from productType_boolean_defaults [of later_env shop_db gadget_only 2
      "[JObj [(''name'', JStr ''Gadget'')]]"] a b c
  show ?thesis by auto
qed

text \<open>
  Claim C7 as stated fails: a product type submitted with its name only is stored with
  requires-serial-number and requires-expiry-date false, not true.
\<close>

theorem productType_serial_number_default_false:
  "is_success (fst (updatePreferences later_env shop_db gadget_only)) \<and>
   pr_productTypes gadget_only = JArr [JObj [(''name'', JStr ''Gadget'')]] \<and>
   map_option productTypes
     (stored_preferences (snd (updatePreferences later_env shop_db gadget_only)) 2) =
   Some [\<lparr>pt_name = ''Gadget'', pt_description = [],
          pt_requiresSerialNumber = JBool False, pt_requiresExpiryDate = JBool False,
          pt_trackInventory = JBool True, pt_isActive = JBool True,
          pt_createdAt = JDate 2000\<rparr>] \<and>
   JBool False \<noteq> JBool True"
proof -
  have a: "is_success (fst (updatePreferences later_env shop_db gadget_only))"
    by (simp add: gadget_only_result)
  have b: "pr_productTypes gadget_only = JArr [JObj [(''name'', JStr ''Gadget'')]]"
    by (simp add: gadget_only_def)
  from a b gadget_only_stored show ?thesis by simp
qed

section \<open>Profile update\<close>

text \<open>
  A conditional assignment leaves alone every field that its assignment leaves alone, and
  the field it is about gets the value exactly when the condition of the source holds.
\<close>

lemma field_if_truthy:
  "(\<And>v c. f (assign v c) = f c) \<Longrightarrow> f (if_truthy x assign b) = f b"
  by (simp add: if_truthy_def split: option.splits)

lemma field_if_defined:
  "(\<And>v c. f (assign v c) = f c) \<Longrightarrow> f (if_defined x assign b) = f b"
  by (simp add: if_defined_def split: option.splits)

lemmas other_field =
  field_if_truthy [of b_id] field_if_defined [of b_id]
  field_if_truthy [of b_name] field_if_defined [of b_name]
  field_if_truthy [of b_industry] field_if_defined [of b_industry]
  field_if_truthy [of b_email] field_if_defined [of b_email]
  field_if_truthy [of b_currency] field_if_defined [of b_currency]
  field_if_truthy [of b_timezone] field_if_defined [of b_timezone]
  field_if_truthy [of b_description] field_if_defined [of b_description]
  field_if_truthy [of b_phone] field_if_defined [of b_phone]
  field_if_truthy [of b_website] field_if_defined [of b_website]
  field_if_truthy [of b_registrationNumber] field_if_defined [of b_registrationNumber]
  field_if_truthy [of b_taxId] field_if_defined [of b_taxId]

lemma assigned_field:
  "b_name (if_truthy x (\<lambda>v b. b\<lparr>b_name := g v\<rparr>) b) =
     (case x of None \<Rightarrow> b_name b | Some v \<Rightarrow> if v \<noteq> [] then g v else b_name b)"
  "b_industry (if_truthy x (\<lambda>v b. b\<lparr>b_industry := v\<rparr>) b) =
     (case x of None \<Rightarrow> b_industry b | Some v \<Rightarrow> if v \<noteq> [] then v else b_industry b)"
  "b_email (if_truthy x (\<lambda>v b. b\<lparr>b_email := Some (g v)\<rparr>) b) =
     (case x of None \<Rightarrow> b_email b | Some v \<Rightarrow> if v \<noteq> [] then Some (g v) else b_email b)"
  "b_currency (if_truthy x (\<lambda>v b. b\<lparr>b_currency := v\<rparr>) b) =
     (case x of None \<Rightarrow> b_currency b | Some v \<Rightarrow> if v \<noteq> [] then v else b_currency b)"
  "b_timezone (if_truthy x (\<lambda>v b. b\<lparr>b_timezone := v\<rparr>) b) =
     (case x of None \<Rightarrow> b_timezone b | Some v \<Rightarrow> if v \<noteq> [] then v else b_timezone b)"
  "b_description (if_defined x (\<lambda>v b. b\<lparr>b_description := Some (g v)\<rparr>) b) =
     (case x of None \<Rightarrow> b_description b | Some v \<Rightarrow> Some (g v))"
  "b_phone (if_defined x (\<lambda>v b. b\<lparr>b_phone := Some (g v)\<rparr>) b) =
     (case x of None \<Rightarrow> b_phone b | Some v \<Rightarrow> Some (g v))"
  "b_website (if_defined x (\<lambda>v b. b\<lparr>b_website := Some (g v)\<rparr>) b) =
     (case x of None \<Rightarrow> b_website b | Some v \<Rightarrow> Some (g v))"
  "b_registrationNumber (if_defined x (\<lambda>v b. b\<lparr>b_registrationNumber := Some (g v)\<rparr>) b) =
     (case x of None \<Rightarrow> b_registrationNumber b | Some v \<Rightarrow> Some (g v))"
  "b_taxId (if_defined x (\<lambda>v b. b\<lparr>b_taxId := Some (g v)\<rparr>) b) =
     (case x of None \<Rightarrow> b_taxId b | Some v \<Rightarrow> Some (g v))"
  by (simp_all add: if_truthy_def if_defined_def split: option.splits)

lemma assign_profile_id: "b_id (assign_profile env req b) = b_id b"
  by (simp add: assign_profile_def Let_def other_field)

lemma assign_profile_preferences: "b_preferences (assign_profile env req b) = b_preferences b"
  by (simp add: assign_profile_def Let_def field_if_truthy [of b_preferences]
        field_if_defined [of b_preferences])

lemma assign_profile_falsy_ignored:
  "b_name (assign_profile env req b) =
     (case pf_name req of None \<Rightarrow> b_name b
      | Some v \<Rightarrow> if v \<noteq> [] then set_trim env v else b_name b)"
  "b_industry (assign_profile env req b) =
     (case pf_industry req of None \<Rightarrow> b_industry b
      | Some v \<Rightarrow> if v \<noteq> [] then v else b_industry b)"
  "b_email (assign_profile env req b) =
     (case pf_email req of None \<Rightarrow> b_email b
      | Some v \<Rightarrow> if v \<noteq> [] then Some (set_trim_lowercase env v) else b_email b)"
  "b_currency (assign_profile env req b) =
     (case pf_currency req of None \<Rightarrow> b_currency b
      | Some v \<Rightarrow> if v \<noteq> [] then v else b_currency b)"
  "b_timezone (assign_profile env req b) =
     (case pf_timezone req of None \<Rightarrow> b_timezone b
      | Some v \<Rightarrow> if v \<noteq> [] then v else b_timezone b)"
  by (simp_all add: assign_profile_def Let_def other_field assigned_field
        cong: option.case_cong if_cong)

lemma assign_profile_defined_written:
  "b_description (assign_profile env req b) =
     (case pf_description req of None \<Rightarrow> b_description b
      | Some v \<Rightarrow> Some (set_trim env v))"
  "b_phone (assign_profile env req b) =
     (case pf_phone req of None \<Rightarrow> b_phone b
      | Some v \<Rightarrow> Some (set_trim env v))"
  "b_website (assign_profile env req b) =
     (case pf_website req of None \<Rightarrow> b_website b
      | Some v \<Rightarrow> Some (set_trim env v))"
  "b_registrationNumber (assign_profile env req b) =
     (case pf_registrationNumber req of None \<Rightarrow> b_registrationNumber b
      | Some v \<Rightarrow> Some (set_trim env v))"
  "b_taxId (assign_profile env req b) =
     (case pf_taxId req of None \<Rightarrow> b_taxId b
      | Some v \<Rightarrow> Some (set_trim env v))"
  by (simp_all add: assign_profile_def Let_def other_field assigned_field
        cong: option.case_cong if_cong)

text \<open>
  An update either fails without touching the store, or replaces the stored business by
  the result of the eleven conditional assignments.
\<close>

lemma updateProfile_result:
  "(\<not> is_success (fst (updateProfile env store req)) \<and>
    snd (updateProfile env store req) = store) \<or>
   (\<exists>bid b. pf_business req = Some bid \<and> read_error env = None \<and> save_accepted env \<and>
      stored_business store bid = Some b \<and>
      updateProfile env store req =
        (Json 200 True ''Business profile updated successfully'' []
           (BusinessData (business_toPublicProfile (assign_profile env req b))),
         store\<lparr>businesses :=
           map (\<lambda>x. if b_id x = bid then assign_profile env req b else x) (businesses store)\<rparr>))"
proof (cases "pf_business req")
  case None
  then show ?thesis by (simp add: updateProfile_def)
next
  case (Some bid)
  show ?thesis
  proof (cases "read_error env")
    case re: (Some e)
    with Some show ?thesis by (simp add: updateProfile_def Business_findById_def)
  next
    case re: None
    show ?thesis
    proof (cases "stored_business store bid")
      case None
      with Some re show ?thesis
        by (simp add: updateProfile_def Business_findById_def stored_business_def)
    next
      case found: (Some b)
      then have idb: "b_id b = bid"
        by (auto simp: stored_business_def find_Some_iff)
      show ?thesis
      proof (cases "save_accepted env")
        case False
        with Some re found have "\<not> is_success (fst (updateProfile env store req)) \<and>
            snd (updateProfile env store req) = store"
          by (auto simp: updateProfile_def Business_findById_def stored_business_def
                Business_save_loaded save_accepted_def split: option.splits)
        then show ?thesis by blast
      next
        case True
        with Some re found idb have "updateProfile env store req =
          (Json 200 True ''Business profile updated successfully'' []
             (BusinessData (business_toPublicProfile (assign_profile env req b))),
           store\<lparr>businesses :=
             map (\<lambda>x. if b_id x = bid then assign_profile env req b else x) (businesses store)\<rparr>)"
          by (simp add: updateProfile_def Business_findById_def stored_business_def
                Business_save_loaded save_accepted_def assign_profile_id)
        with Some re True found show ?thesis by blast
      qed
    qed
  qed
qed

lemma updateProfile_stored:
  "stored_business (snd (updateProfile env store req)) i =
     (if is_success (fst (updateProfile env store req)) \<and> pf_business req = Some i
      then map_option (assign_profile env req) (stored_business store i)
      else stored_business store i)"
proof -
  from updateProfile_result [of env store req] show ?thesis
  proof
    assume "\<not> is_success (fst (updateProfile env store req)) \<and>
      snd (updateProfile env store req) = store"
    then show ?thesis by simp
  next
    assume "\<exists>bid b. pf_business req = Some bid \<and> read_error env = None \<and> save_accepted env \<and>
      stored_business store bid = Some b \<and>
      updateProfile env store req =
        (Json 200 True ''Business profile updated successfully'' []
           (BusinessData (business_toPublicProfile (assign_profile env req b))),
         store\<lparr>businesses :=
           map (\<lambda>x. if b_id x = bid then assign_profile env req b else x) (businesses store)\<rparr>)"
    then obtain bid b where h: "pf_business req = Some bid" "stored_business store bid = Some b"
      and r: "updateProfile env store req =
        (Json 200 True ''Business profile updated successfully'' []
           (BusinessData (business_toPublicProfile (assign_profile env req b))),
         store\<lparr>businesses :=
           map (\<lambda>x. if b_id x = bid then assign_profile env req b else x) (businesses store)\<rparr>)"
      by blast
    from h(2) have "b_id b = bid"
      by (auto simp: stored_business_def find_Some_iff)
    then have "b_id (assign_profile env req b) = bid"
      by (simp add: assign_profile_id)
    from stored_business_replace [OF this, of store i] h show ?thesis
      by (auto simp: r)
  qed
qed

lemma blank_profile_result:
  "is_success (fst (updateProfile later_env shop_db blank_profile))"
  by (simp add: updateProfile_def blank_profile_def shop_db_found Business_save_loaded
        later_env_fields)

text \<open>
  Claim C10. For every profile update and every stored business: a name, industry, email,
  currency or time zone that is absent from the request or sent as the empty string
  leaves the stored field as it was; a description, phone, website, registration number
  or tax id that is absent leaves the stored field as it was; and in an accepted update
  of the business, each of these five fields sent as the empty string is stored as the
  empty string (which the \<^verbatim>\<open>trim\<close> setter of the schema leaves as it is).
\<close>

theorem updateProfile_empty_strings:
  "((pf_name req = None \<or> pf_name req = Some []) \<longrightarrow>
      map_option b_name (stored_business (snd (updateProfile env store req)) i) =
      map_option b_name (stored_business store i)) \<and>
   ((pf_industry req = None \<or> pf_industry req = Some []) \<longrightarrow>
      map_option b_industry (stored_business (snd (updateProfile env store req)) i) =
      map_option b_industry (stored_business store i)) \<and>
   ((pf_email req = None \<or> pf_email req = Some []) \<longrightarrow>
      map_option b_email (stored_business (snd (updateProfile env store req)) i) =
      map_option b_email (stored_business store i)) \<and>
   ((pf_currency req = None \<or> pf_currency req = Some []) \<longrightarrow>
      map_option b_currency (stored_business (snd (updateProfile env store req)) i) =
      map_option b_currency (stored_business store i)) \<and>
   ((pf_timezone req = None \<or> pf_timezone req = Some []) \<longrightarrow>
      map_option b_timezone (stored_business (snd (updateProfile env store req)) i) =
      map_option b_timezone (stored_business store i)) \<and>
   (pf_description req = None \<longrightarrow>
      map_option b_description (stored_business (snd (updateProfile env store req)) i) =
      map_option b_description (stored_business store i)) \<and>
   (pf_phone req = None \<longrightarrow>
      map_option b_phone (stored_business (snd (updateProfile env store req)) i) =
      map_option b_phone (stored_business store i)) \<and>
   (pf_website req = None \<longrightarrow>
      map_option b_website (stored_business (snd (updateProfile env store req)) i) =
      map_option b_website (stored_business store i)) \<and>
   (pf_registrationNumber req = None \<longrightarrow>
      map_option b_registrationNumber (stored_business (snd (updateProfile env store req)) i) =
      map_option b_registrationNumber (stored_business store i)) \<and>
   (pf_taxId req = None \<longrightarrow>
      map_option b_taxId (stored_business (snd (updateProfile env store req)) i) =
      map_option b_taxId (stored_business store i)) \<and>
   (is_success (fst (updateProfile env store req)) \<and> pf_business req = Some i \<longrightarrow>
      (pf_description req = Some [] \<longrightarrow>
         map_option b_description (stored_business (snd (updateProfile env store req)) i) =
         Some (Some [])) \<and>
      (pf_phone req = Some [] \<longrightarrow>
         map_option b_phone (stored_business (snd (updateProfile env store req)) i) =
         Some (Some [])) \<and>
      (pf_website req = Some [] \<longrightarrow>
         map_option b_website (stored_business (snd (updateProfile env store req)) i) =
         Some (Some [])) \<and>
      (pf_registrationNumber req = Some [] \<longrightarrow>
         map_option b_registrationNumber (stored_business (snd (updateProfile env store req)) i) =
         Some (Some [])) \<and>
      (pf_taxId req = Some [] \<longrightarrow>
         map_option b_taxId (stored_business (snd (updateProfile env store req)) i) =
         Some (Some [])))"
proof (cases "is_success (fst (updateProfile env store req)) \<and> pf_business req = Some i")
  case False
  then have "stored_business (snd (updateProfile env store req)) i = stored_business store i"
    by (auto simp: updateProfile_stored)
  with False show ?thesis by (simp only:) simp
next
  case True
  with updateProfile_result [of env store req] obtain b where
    b: "stored_business store i = Some b"
    by auto
  with True have st: "stored_business (snd (updateProfile env store req)) i =
      Some (assign_profile env req b)"
    by (simp add: updateProfile_stored)
  show ?thesis
    unfolding st b
    by (auto simp add: assign_profile_falsy_ignored assign_profile_defined_written set_trim_def)
qed

theorem updateProfile_empty_strings_witness:
  "is_success (fst (updateProfile later_env shop_db blank_profile)) \<and>
   pf_business blank_profile = Some 2 \<and>
   map_option b_name (stored_business shop_db 2) = Some ''John's Electronics'' \<and>
   map_option b_description (stored_business shop_db 2) = Some None \<and>
   pf_name blank_profile = Some [] \<and> pf_description blank_profile = Some [] \<and>
   pf_website blank_profile = None \<and>
   map_option b_name (stored_business (snd (updateProfile later_env shop_db blank_profile)) 2) =
     Some ''John's Electronics'' \<and>
   map_option b_industry (stored_business (snd (updateProfile later_env shop_db blank_profile)) 2) =
     Some ''retail'' \<and>
   map_option b_email (stored_business (snd (updateProfile later_env shop_db blank_profile)) 2) =
     Some (Some ''john@example.com'') \<and>
   map_option b_currency (stored_business (snd (updateProfile later_env shop_db blank_profile)) 2) =
     Some ''NGN'' \<and>
   map_option b_timezone (stored_business (snd (updateProfile later_env shop_db blank_profile)) 2) =
     Some ''Africa/Lagos'' \<and>
   map_option b_website (stored_business (snd (updateProfile later_env shop_db blank_profile)) 2) =
     Some None \<and>
   map_option b_description
       (stored_business (snd (updateProfile later_env shop_db blank_profile)) 2) =
     Some (Some []) \<and>
   map_option b_phone (stored_business (snd (updateProfile later_env shop_db blank_profile)) 2) =
     Some (Some []) \<and>
   map_option b_registrationNumber
       (stored_business (snd (updateProfile later_env shop_db blank_profile)) 2) =
     Some (Some []) \<and>
   map_option b_taxId (stored_business (snd (updateProfile later_env shop_db blank_profile)) 2) =
     Some (Some [])"
  using updateProfile_empty_strings [of blank_profile later_env shop_db 2] blank_profile_result
  by (simp add: blank_profile_def shop_db_business john_business_def)

section \<open>Uniqueness of the normalized keys\<close>

lemma process_categories_distinct:
  assumes laws: "string_laws env" and pr: "process_categories env v = Inr cs"
  shows "distinct (category_keys env cs)"
proof -
  from process_collection_Inr [OF pr [unfolded process_categories_def]]
  obtain xs ks where "mapE (categoryKey env) xs = Inr ks" "distinct ks"
    "mapE (build_category env) xs = Inr cs"
    by blast
  with built_keys [of "categoryKey env" xs ks "build_category env" cs "\<lambda>c. trim env (toLowerCase env (c_name c))"]
  have "distinct (map (\<lambda>c. Some (trim env (toLowerCase env (c_name c)))) cs)"
    using build_category_key [OF laws] by blast
  then show ?thesis
    by (simp add: category_keys_def distinct_map_Some)
qed

lemma process_units_distinct:
  assumes laws: "string_laws env" and pr: "process_units env v = Inr us"
  shows "distinct (unit_keys env us)"
proof -
  from process_collection_Inr [OF pr [unfolded process_units_def]]
  obtain xs ks where "mapE (unitKey env) xs = Inr ks" "distinct ks"
    "mapE (build_unit env) xs = Inr us"
    by blast
  with built_keys [of "unitKey env" xs ks "build_unit env" us "\<lambda>u. trim env (toUpperCase env (um_abbreviation u))"]
  have "distinct (map (\<lambda>u. Some (trim env (toUpperCase env (um_abbreviation u)))) us)"
    using build_unit_key [OF laws] by blast
  then show ?thesis
    by (simp add: unit_keys_def distinct_map_Some)
qed

lemma process_productTypes_distinct:
  assumes laws: "string_laws env" and pr: "process_productTypes env v = Inr ts"
  shows "distinct (productType_keys env ts)"
proof -
  from process_collection_Inr [OF pr [unfolded process_productTypes_def]]
  obtain xs ks where "mapE (categoryKey env) xs = Inr ks" "distinct ks"
    "mapE (build_productType env) xs = Inr ts"
    by blast
  with built_keys [of "categoryKey env" xs ks "build_productType env" ts
      "\<lambda>c. trim env (toLowerCase env (pt_name c))"]
  have "distinct (map (\<lambda>c. Some (trim env (toLowerCase env (pt_name c)))) ts)"
    using build_productType_key [OF laws] by blast
  then show ?thesis
    by (simp add: productType_keys_def distinct_map_Some)
qed

lemma repeats_key_truthy: "repeats_key key v \<Longrightarrow> truthy v"
  by (cases v) (simp_all add: repeats_key_def)

lemma process_repeats:
  "repeats_key (categoryKey env) v \<Longrightarrow> \<exists>r. process_categories env v = Inl r"
  "repeats_key (unitKey env) v \<Longrightarrow> \<exists>r. process_units env v = Inl r"
  "repeats_key (categoryKey env) v \<Longrightarrow> \<exists>r. process_productTypes env v = Inl r"
  unfolding process_categories_def process_units_def process_productTypes_def
  by (rule process_collection_repeats, assumption)+

lemma repeated_keys_never_succeed:
  assumes "repeats_key (categoryKey env) (pr_categories req) \<or> repeats_key (unitKey env) (pr_units req) \<or>
           repeats_key (categoryKey env) (pr_productTypes req)"
  shows "\<not> is_success (fst (updatePreferences env store req))"
proof
  assume "is_success (fst (updatePreferences env store req))"
  from updatePreferences_success [OF this] obtain b b3 where ok: "updates_ok env req b b3"
    by blast
  note pr = updates_ok_processed [OF ok]
  from assms show False
  proof (elim disjE)
    assume r: "repeats_key (categoryKey env) (pr_categories req)"
    from pr(1) [OF repeats_key_truthy [OF r]] process_repeats(1) [OF r]
    show False by auto
  next
    assume r: "repeats_key (unitKey env) (pr_units req)"
    from pr(2) [OF repeats_key_truthy [OF r]] process_repeats(2) [OF r]
    show False by auto
  next
    assume r: "repeats_key (categoryKey env) (pr_productTypes req)"
    from pr(3) [OF repeats_key_truthy [OF r]] process_repeats(3) [OF r]
    show False by auto
  qed
qed

lemma duplicate_categories_listed:
  assumes "pr_business req = Some bid" "read_error env = None"
    "stored_business store bid = Some b"
    and "pr_categories req = JArr xs" "mapE (categoryKey env) xs = Inr ks" "\<not> distinct ks"
  shows "fst (updatePreferences env store req) =
           failure 400 (''Duplicate category names found: '' @ join_keys (duplicates ks))"
proof -
  have "update_categories env (pr_categories req) b =
          Inl (failure 400 (''Duplicate category names found: '' @ join_keys (duplicates ks)))"
    using assms(4-6)
    by (simp add: update_categories_def process_categories_def process_collection_duplicate)
  with updatePreferences_found [OF assms(1-3)] assms(4) show ?thesis by simp
qed

lemma duplicate_units_listed:
  assumes "pr_business req = Some bid" "read_error env = None"
    "stored_business store bid = Some b"
    and "update_categories env (pr_categories req) b = Inr b1"
    and "pr_units req = JArr xs" "mapE (unitKey env) xs = Inr ks" "\<not> distinct ks"
  shows "fst (updatePreferences env store req) =
           failure 400 (''Duplicate unit abbreviations found: '' @ join_keys (duplicates ks))"
proof -
  have "update_units env (pr_units req) b1 =
          Inl (failure 400 (''Duplicate unit abbreviations found: '' @ join_keys (duplicates ks)))"
    using assms(5-7)
    by (simp add: update_units_def process_units_def process_collection_duplicate)
  with updatePreferences_found [OF assms(1-3)] assms(4,5) show ?thesis by simp
qed

lemma duplicate_productTypes_listed:
  assumes "pr_business req = Some bid" "read_error env = None"
    "stored_business store bid = Some b"
    and "update_categories env (pr_categories req) b = Inr b1"
    and "update_units env (pr_units req) b1 = Inr b2"
    and "pr_productTypes req = JArr xs" "mapE (categoryKey env) xs = Inr ks" "\<not> distinct ks"
  shows "fst (updatePreferences env store req) =
           failure 400 (''Duplicate product type names found: '' @ join_keys (duplicates ks))"
proof -
  have "update_productTypes env (pr_productTypes req) b2 =
          Inl (failure 400 (''Duplicate product type names found: '' @ join_keys (duplicates ks)))"
    using assms(6-8)
    by (simp add: update_productTypes_def process_productTypes_def process_collection_duplicate)
  with updatePreferences_found [OF assms(1-3)] assms(4,5,6) show ?thesis by simp
qed

lemma replace_keeps_keys_unique:
  assumes "is_success (fst (updatePreferences env store req))" and laws: "string_laws env"
  shows "\<exists>bid p p3. pr_business req = Some bid \<and> stored_preferences store bid = Some p \<and>
     stored_preferences (snd (updatePreferences env store req)) bid = Some p3 \<and>
     (truthy (pr_categories req) \<longrightarrow> distinct (category_keys env (categories p3))) \<and>
     (truthy (pr_units req) \<longrightarrow> distinct (unit_keys env (units p3))) \<and>
     (truthy (pr_productTypes req) \<longrightarrow> distinct (productType_keys env (productTypes p3))) \<and>
     (\<not> truthy (pr_categories req) \<longrightarrow> categories p3 = categories p) \<and>
     (\<not> truthy (pr_units req) \<longrightarrow> units p3 = units p) \<and>
     (\<not> truthy (pr_productTypes req) \<longrightarrow> productTypes p3 = productTypes p) \<and>
     (unique_keys env p \<longrightarrow> unique_keys env p3)"
proof -
  from updatePreferences_success [OF assms(1)] obtain bid b b3 p p3 where
    h: "pr_business req = Some bid" "updates_ok env req b b3"
       "stored_preferences store bid = Some p"
       "stored_preferences (snd (updatePreferences env store req)) bid = Some p3"
    and c: "categories p3 =
        (if truthy (pr_categories req)
         then projr (process_categories env (pr_categories req)) else categories p)"
    and u: "units p3 =
        (if truthy (pr_units req)
         then projr (process_units env (pr_units req)) else units p)"
    and t: "productTypes p3 =
        (if truthy (pr_productTypes req)
         then projr (process_productTypes env (pr_productTypes req))
         else productTypes p)"
    by blast
  note pr = updates_ok_processed [OF h(2)]
  have dc: "truthy (pr_categories req) \<Longrightarrow> distinct (category_keys env (categories p3))"
    using pr(1) c process_categories_distinct [OF laws] by fastforce
  have du: "truthy (pr_units req) \<Longrightarrow> distinct (unit_keys env (units p3))"
    using pr(2) u process_units_distinct [OF laws] by fastforce
  have dt: "truthy (pr_productTypes req) \<Longrightarrow>
      distinct (productType_keys env (productTypes p3))"
    using pr(3) t process_productTypes_distinct [OF laws] by fastforce
  have "unique_keys env p \<Longrightarrow> unique_keys env p3"
    using dc du dt c u t by (auto simp: unique_keys_def)
  with h dc du dt c u t show ?thesis by auto
qed

subsection \<open>The stores that the system produces\<close>

lemma same_runtime_keys: "same_runtime rt env \<Longrightarrow> unique_keys env p = unique_keys rt p"
  by (simp add: same_runtime_def unique_keys_def category_keys_def unit_keys_def
        productType_keys_def)

lemma same_runtime_laws: "same_runtime rt env \<Longrightarrow> string_laws rt \<Longrightarrow> string_laws env"
  by (simp add: same_runtime_def string_laws_def)

lemma same_runtime_all: "same_runtime rt env \<Longrightarrow> all_keys_unique env s = all_keys_unique rt s"
  by (simp add: all_keys_unique_def same_runtime_keys)

lemma updates_ok_unique:
  assumes ok: "updates_ok env req b b3" and laws: "string_laws env"
    and u: "unique_keys env (read_preferences b)"
  shows "unique_keys env (read_preferences b3)"
proof -
  note p = updates_ok_preferences [OF ok]
  note pr = updates_ok_processed [OF ok]
  have "distinct (category_keys env (categories (read_preferences b3)))"
    using p(1) pr(1) u process_categories_distinct [OF laws]
    by (cases "truthy (pr_categories req)") (auto simp: unique_keys_def)
  moreover have "distinct (unit_keys env (units (read_preferences b3)))"
    using p(2) pr(2) u process_units_distinct [OF laws]
    by (cases "truthy (pr_units req)") (auto simp: unique_keys_def)
  moreover have "distinct (productType_keys env (productTypes (read_preferences b3)))"
    using p(3) pr(3) u process_productTypes_distinct [OF laws]
    by (cases "truthy (pr_productTypes req)") (auto simp: unique_keys_def)
  ultimately show ?thesis by (simp add: unique_keys_def)
qed

lemma stored_business_member: "stored_business store i = Some b \<Longrightarrow> b \<in> set (businesses store)"
  by (auto simp: stored_business_def find_Some_iff)

lemma updatePreferences_keeps_unique:
  assumes laws: "string_laws env" and u: "all_keys_unique env store"
  shows "all_keys_unique env (snd (updatePreferences env store req))"
proof (cases "is_success (fst (updatePreferences env store req))")
  case False
  with u show ?thesis by (simp add: updatePreferences_failure)
next
  case True
  with updatePreferences_result [of env store req] obtain bid b b3 where
    f: "stored_business store bid = Some b" and ok: "updates_ok env req b b3"
    and r: "snd (updatePreferences env store req) =
        store\<lparr>businesses := map (\<lambda>x. if b_id x = bid then b3 else x) (businesses store)\<rparr>"
    by auto
  from u stored_business_member [OF f] have "unique_keys env (read_preferences b)"
    by (simp add: all_keys_unique_def)
  from updates_ok_unique [OF ok laws this] u show ?thesis
    by (auto simp: r all_keys_unique_def)
qed

lemma register_keeps_unique:
  assumes "all_keys_unique rt store"
  shows "all_keys_unique rt (snd (register env store req))"
proof (cases "is_success (fst (register env store req))")
  case False
  with assms show ?thesis by (simp add: register_failure_unchanged)
next
  case True
  from register_preferences_empty [OF True] obtain b where
    "businesses (snd (register env store req)) = businesses store @ [b]"
    "b_preferences b = Some \<lparr>categories = [], units = [], productTypes = []\<rparr>"
    by blast
  with assms show ?thesis
    by (auto simp: all_keys_unique_def read_preferences_def unique_keys_def category_keys_def
          unit_keys_def productType_keys_def)
qed

lemma User_save_businesses:
  "User_save env k v store d = Inr (d', store') \<Longrightarrow> businesses store' = businesses store"
  by (auto simp: User_save_def Let_def split: if_splits option.splits)

lemma login_businesses: "businesses (snd (login env store req)) = businesses store"
  by (auto simp: login_def Let_def login_steps_def dest: User_save_businesses
        split: option.splits sum.splits prod.splits if_splits)

lemma updatePassword_businesses:
  "businesses (snd (updatePassword env store req)) = businesses store"
  by (auto simp: updatePassword_def Let_def updatePassword_steps_def dest: User_save_businesses
        split: option.splits sum.splits prod.splits if_splits)

lemma updateProfile_keeps_unique:
  assumes u: "all_keys_unique rt store"
  shows "all_keys_unique rt (snd (updateProfile env store req))"
proof -
  from updateProfile_result [of env store req] show ?thesis
  proof
    assume "\<not> is_success (fst (updateProfile env store req)) \<and>
      snd (updateProfile env store req) = store"
    with u show ?thesis by simp
  next
    assume "\<exists>bid b. pf_business req = Some bid \<and> read_error env = None \<and> save_accepted env \<and>
      stored_business store bid = Some b \<and>
      updateProfile env store req =
        (Json 200 True ''Business profile updated successfully'' []
           (BusinessData (business_toPublicProfile (assign_profile env req b))),
         store\<lparr>businesses :=
           map (\<lambda>x. if b_id x = bid then assign_profile env req b else x) (businesses store)\<rparr>)"
    then obtain bid b where f: "stored_business store bid = Some b"
      and r: "snd (updateProfile env store req) =
         store\<lparr>businesses :=
           map (\<lambda>x. if b_id x = bid then assign_profile env req b else x) (businesses store)\<rparr>"
      by auto
    have "read_preferences (assign_profile env req b) = read_preferences b"
      by (simp add: read_preferences_def assign_profile_preferences)
    with u stored_business_member [OF f] show ?thesis
      by (auto simp: r all_keys_unique_def)
  qed
qed

lemma reachable_keys_unique:
  assumes "reachable rt store" "string_laws rt"
  shows "all_keys_unique rt store"
  using assms
proof (induction rule: reachable.induct)
  case start
  show ?case by (simp add: all_keys_unique_def)
next
  case (registered store env req)
  then show ?case by (simp add: register_keeps_unique)
next
  case (logged_in store env lreq)
  then show ?case by (simp add: all_keys_unique_def login_businesses)
next
  case (password_updated store env preq)
  then show ?case by (simp add: all_keys_unique_def updatePassword_businesses)
next
  case (preferences_updated store env qreq)
  from preferences_updated.hyps(2) preferences_updated.prems
  have laws: "string_laws env" by (rule same_runtime_laws)
  from preferences_updated have "all_keys_unique env store"
    by (simp add: same_runtime_all)
  from updatePreferences_keeps_unique [OF laws this] preferences_updated.hyps(2)
  show ?case by (simp add: same_runtime_all)
next
  case (profile_updated store env freq)
  then show ?case by (simp add: updateProfile_keeps_unique)
qed

lemma same_runtime_refl: "same_runtime env env"
  by (simp add: same_runtime_def)

lemma produced_keys_unique:
  assumes "string_laws env" "reachable env store"
    "is_success (fst (updatePreferences env store req))"
  shows "\<exists>i p3. pr_business req = Some i \<and>
           stored_preferences (snd (updatePreferences env store req)) i = Some p3 \<and>
           unique_keys env p3"
proof -
  from updatePreferences_success [OF assms(3)] obtain i p3 where
    i: "pr_business req = Some i"
       "stored_preferences (snd (updatePreferences env store req)) i = Some p3"
    by blast
  from i(2) obtain b where
    b: "stored_business (snd (updatePreferences env store req)) i = Some b"
       "p3 = read_preferences b"
    by (auto simp: stored_preferences_def)
  have "reachable env (snd (updatePreferences env store req))"
    using assms(2) same_runtime_refl by (rule reachable.preferences_updated)
  from reachable_keys_unique [OF this assms(1)] stored_business_member [OF b(1)] b(2)
  have "unique_keys env p3" by (simp add: all_keys_unique_def)
  with i show ?thesis by blast
qed

text \<open>
  Claim C3, as amended. (1) A replace request in which a supplied collection contains two
  elements with the same normalized key does not succeed, and the stored preferences (the
  whole store) are unchanged. (2) The failure is the duplicate error that lists the
  repeated keys when the collection is the first one to be rejected, the collections being
  treated in the order categories, units, product types, and when the key of each of its
  elements can be computed. (3) After a successful request every supplied collection is
  stored with pairwise distinct normalized keys, and a collection that is not supplied
  keeps the keys it had. (4) In every store that the system produces, the normalized
  keys within each stored collection of every business are pairwise distinct, and so
  they are after every successful replace request on such a store. Parts (3) and (4)
  compare the key of a stored element with the key of the submitted one, and rely on the
  laws of the string functions.
\<close>

theorem duplicate_keys_rejected:
  "(repeats_key (categoryKey env) (pr_categories req) \<or>
    repeats_key (unitKey env) (pr_units req) \<or>
    repeats_key (categoryKey env) (pr_productTypes req)
    \<longrightarrow> \<not> is_success (fst (updatePreferences env store req)) \<and>
        snd (updatePreferences env store req) = store)
   \<and>
   (pr_business req = Some bid \<and> read_error env = None \<and> stored_business store bid = Some b
    \<longrightarrow>
      (pr_categories req = JArr xs \<and> mapE (categoryKey env) xs = Inr ks \<and> \<not> distinct ks
       \<longrightarrow> fst (updatePreferences env store req) =
             failure 400 (''Duplicate category names found: '' @ join_keys (duplicates ks))) \<and>
      (update_categories env (pr_categories req) b = Inr b1 \<and>
       pr_units req = JArr ys \<and> mapE (unitKey env) ys = Inr ks' \<and> \<not> distinct ks'
       \<longrightarrow> fst (updatePreferences env store req) =
             failure 400 (''Duplicate unit abbreviations found: '' @ join_keys (duplicates ks'))) \<and>
      (update_categories env (pr_categories req) b = Inr b1 \<and>
       update_units env (pr_units req) b1 = Inr b2 \<and>
       pr_productTypes req = JArr zs \<and> mapE (categoryKey env) zs = Inr ks'' \<and> \<not> distinct ks''
       \<longrightarrow> fst (updatePreferences env store req) =
             failure 400
               (''Duplicate product type names found: '' @ join_keys (duplicates ks''))))
   \<and>
   (is_success (fst (updatePreferences env store req)) \<and> string_laws env
    \<longrightarrow> (\<exists>i p p3. pr_business req = Some i \<and> stored_preferences store i = Some p \<and>
          stored_preferences (snd (updatePreferences env store req)) i = Some p3 \<and>
          (truthy (pr_categories req) \<longrightarrow> distinct (category_keys env (categories p3))) \<and>
          (truthy (pr_units req) \<longrightarrow> distinct (unit_keys env (units p3))) \<and>
          (truthy (pr_productTypes req) \<longrightarrow>
             distinct (productType_keys env (productTypes p3))) \<and>
          (\<not> truthy (pr_categories req) \<longrightarrow> categories p3 = categories p) \<and>
          (\<not> truthy (pr_units req) \<longrightarrow> units p3 = units p) \<and>
          (\<not> truthy (pr_productTypes req) \<longrightarrow> productTypes p3 = productTypes p) \<and>
          (unique_keys env p \<longrightarrow> unique_keys env p3)))
   \<and>
   (string_laws env \<and> reachable env store
    \<longrightarrow> all_keys_unique env store \<and>
        (is_success (fst (updatePreferences env store req))
         \<longrightarrow> (\<exists>i p3. pr_business req = Some i \<and>
                stored_preferences (snd (updatePreferences env store req)) i = Some p3 \<and>
                unique_keys env p3)))"
proof (intro conjI impI)
  assume r: "repeats_key (categoryKey env) (pr_categories req) \<or>
    repeats_key (unitKey env) (pr_units req) \<or>
    repeats_key (categoryKey env) (pr_productTypes req)"
  then show ns: "\<not> is_success (fst (updatePreferences env store req))"
    by (rule repeated_keys_never_succeed)
  then show "snd (updatePreferences env store req) = store"
    by (rule updatePreferences_failure)
next
  assume "pr_business req = Some bid \<and> read_error env = None \<and> stored_business store bid = Some b"
    and "pr_categories req = JArr xs \<and> mapE (categoryKey env) xs = Inr ks \<and> \<not> distinct ks"
  then show "fst (updatePreferences env store req) =
             failure 400 (''Duplicate category names found: '' @ join_keys (duplicates ks))"
    using duplicate_categories_listed by blast
next
  assume "pr_business req = Some bid \<and> read_error env = None \<and> stored_business store bid = Some b"
    and "update_categories env (pr_categories req) b = Inr b1 \<and>
       pr_units req = JArr ys \<and> mapE (unitKey env) ys = Inr ks' \<and> \<not> distinct ks'"
  then show "fst (updatePreferences env store req) =
             failure 400 (''Duplicate unit abbreviations found: '' @ join_keys (duplicates ks'))"
    using duplicate_units_listed by blast
next
  assume "pr_business req = Some bid \<and> read_error env = None \<and> stored_business store bid = Some b"
    and "update_categories env (pr_categories req) b = Inr b1 \<and>
       update_units env (pr_units req) b1 = Inr b2 \<and>
       pr_productTypes req = JArr zs \<and> mapE (categoryKey env) zs = Inr ks'' \<and> \<not> distinct ks''"
  then show "fst (updatePreferences env store req) =
             failure 400
               (''Duplicate product type names found: '' @ join_keys (duplicates ks''))"
    using duplicate_productTypes_listed by blast
next
  assume "is_success (fst (updatePreferences env store req)) \<and> string_laws env"
  then show "\<exists>i p p3. pr_business req = Some i \<and> stored_preferences store i = Some p \<and>
          stored_preferences (snd (updatePreferences env store req)) i = Some p3 \<and>
          (truthy (pr_categories req) \<longrightarrow> distinct (category_keys env (categories p3))) \<and>
          (truthy (pr_units req) \<longrightarrow> distinct (unit_keys env (units p3))) \<and>
          (truthy (pr_productTypes req) \<longrightarrow>
             distinct (productType_keys env (productTypes p3))) \<and>
          (\<not> truthy (pr_categories req) \<longrightarrow> categories p3 = categories p) \<and>
          (\<not> truthy (pr_units req) \<longrightarrow> units p3 = units p) \<and>
          (\<not> truthy (pr_productTypes req) \<longrightarrow> productTypes p3 = productTypes p) \<and>
          (unique_keys env p \<longrightarrow> unique_keys env p3)"
    using replace_keeps_keys_unique by blast
next
  assume "string_laws env \<and> reachable env store"
  then show "all_keys_unique env store"
    using reachable_keys_unique by blast
next
  assume "string_laws env \<and> reachable env store"
    and "is_success (fst (updatePreferences env store req))"
  then show "\<exists>i p3. pr_business req = Some i \<and>
                stored_preferences (snd (updatePreferences env store req)) i = Some p3 \<and>
                unique_keys env p3"
    using produced_keys_unique by blast
qed

subsection \<open>Repeated keys on the example store\<close>

lemma duplicate_units_keys:
  "mapE (unitKey later_env)
     [JObj [(''name'', JStr ''Box''), (''abbreviation'', JStr ''bx'')],
      JObj [(''name'', JStr ''Pack''), (''abbreviation'', JStr ''BX'')]] =
     Inr [Some ''BX'', Some ''BX'']"
  by (simp add: unitKey_def example_runtime ascii_bx)

lemma duplicate_names_keys:
  "mapE (categoryKey later_env)
     [JObj [(''name'', JStr ''Tools'')], JObj [(''name'', JStr '' tools '')]] =
     Inr [Some ''tools'', Some ''tools'']"
  by (simp add: categoryKey_def example_runtime ascii_bx)

lemma listed_twice:
  "join_keys (duplicates [Some ''BX'', Some ''BX'']) = ''BX''"
  "join_keys (duplicates [Some ''tools'', Some ''tools'']) = ''tools''"
  by (simp_all add: join_keys_def duplicates_def indexOf_def)

lemma default_keys:
  "map (\<lambda>c. ascii_trim (ascii_toLowerCase (c_name c))) (default_categories 1000) =
     [''electronics'', ''clothing'', ''food & beverages'']"
  "map (\<lambda>u. ascii_trim (ascii_toUpperCase (um_abbreviation u))) (default_units 1000) =
     [''PCS'', ''KG'', ''L'', ''DZ'']"
  "map (\<lambda>t. ascii_trim (ascii_toLowerCase (pt_name t))) (default_productTypes 1000) =
     [''physical product'', ''perishable'', ''service'']"
  by code_simp+

lemma default_preferences_unique: "unique_keys later_env (default_preferences 1000)"
  by (simp add: unique_keys_def category_keys_def unit_keys_def productType_keys_def
        example_runtime default_preferences_def default_keys)

lemma john_db_reachable: "reachable later_env john_db"
proof -
  have "same_runtime later_env example_env"
    by (simp add: same_runtime_def example_runtime)
  with reachable.start [of later_env]
  have "reachable later_env (snd (register example_env \<lparr>users = [], businesses = []\<rparr> john))"
    by (rule reachable.registered)
  then show ?thesis by (simp add: john_db_def empty_db_def)
qed

theorem duplicate_keys_rejected_witness:
  "repeats_key (unitKey later_env) (pr_units duplicate_units) \<and>
   \<not> is_success (fst (updatePreferences later_env shop_db duplicate_units)) \<and>
   snd (updatePreferences later_env shop_db duplicate_units) = shop_db \<and>
   fst (updatePreferences later_env shop_db duplicate_units) =
     failure 400 ''Duplicate unit abbreviations found: BX'' \<and>
   fst (updatePreferences later_env shop_db duplicate_categories) =
     failure 400 ''Duplicate category names found: tools'' \<and>
   fst (updatePreferences later_env shop_db duplicate_productTypes) =
     failure 400 ''Duplicate product type names found: tools'' \<and>
   is_success (fst (updatePreferences later_env shop_db units_only)) \<and>
   string_laws later_env \<and>
   (\<exists>p3. stored_preferences (snd (updatePreferences later_env shop_db units_only)) 2 = Some p3 \<and>
         distinct (unit_keys later_env (units p3)) \<and> unique_keys later_env p3) \<and>
   reachable later_env john_db \<and> all_keys_unique later_env john_db \<and>
   is_success (fst (updatePreferences later_env john_db units_only)) \<and>
   (\<exists>p3. stored_preferences (snd (updatePreferences later_env john_db units_only)) 2 = Some p3 \<and>
         unique_keys later_env p3)"
proof -
  let ?b = "john_business\<lparr>b_preferences := Some (default_preferences 1000)\<rparr>"
  have re: "read_error later_env = None"
    by (simp add: later_env_fields)
  have rk: "repeats_key (unitKey later_env) (pr_units duplicate_units)"
    using defined_keys_mapE [OF duplicate_units_keys]
    by (simp add: repeats_key_def duplicate_units_def map_filter_simps)
  have a: "\<not> is_success (fst (updatePreferences later_env shop_db duplicate_units)) \<and>
      snd (updatePreferences later_env shop_db duplicate_units) = shop_db"
    using duplicate_keys_rejected [where req = duplicate_units and env = later_env
        and store = shop_db] rk
    by blast
  have b: "fst (updatePreferences later_env shop_db duplicate_units) =
     failure 400 ''Duplicate unit abbreviations found: BX''"
    using duplicate_keys_rejected [where req = duplicate_units and env = later_env
        and store = shop_db and bid = 2 and b = ?b and ?b1.0 = ?b
        and ys = "[JObj [(''name'', JStr ''Box''), (''abbreviation'', JStr ''bx'')],
                 JObj [(''name'', JStr ''Pack''), (''abbreviation'', JStr ''BX'')]]"
        and ks' = "[Some ''BX'', Some ''BX'']"]
      re shop_db_business(1) duplicate_units_keys
    by (simp add: duplicate_units_def update_categories_def listed_twice)
  have c: "fst (updatePreferences later_env shop_db duplicate_categories) =
     failure 400 ''Duplicate category names found: tools''"
    using duplicate_keys_rejected [where req = duplicate_categories and env = later_env
        and store = shop_db and bid = 2 and b = ?b
        and xs = "[JObj [(''name'', JStr ''Tools'')], JObj [(''name'', JStr '' tools '')]]"
        and ks = "[Some ''tools'', Some ''tools'']"]
      re shop_db_business(1) duplicate_names_keys
    by (simp add: duplicate_categories_def duplicate_names_def listed_twice)
  have d: "fst (updatePreferences later_env shop_db duplicate_productTypes) =
     failure 400 ''Duplicate product type names found: tools''"
    using duplicate_keys_rejected [where req = duplicate_productTypes and env = later_env
        and store = shop_db and bid = 2 and b = ?b and ?b1.0 = ?b and ?b2.0 = ?b
        and zs = "[JObj [(''name'', JStr ''Tools'')], JObj [(''name'', JStr '' tools '')]]"
        and ks'' = "[Some ''tools'', Some ''tools'']"]
      re shop_db_business(1) duplicate_names_keys
    by (simp add: duplicate_productTypes_def duplicate_names_def update_categories_def
          update_units_def listed_twice)
  have e: "is_success (fst (updatePreferences later_env shop_db units_only))"
    "is_success (fst (updatePreferences later_env john_db units_only))"
    by (simp_all add: units_only_result john_units_only_result)
  have l: "string_laws later_env"
    by (rule example_laws)
  have f: "\<exists>p3. stored_preferences (snd (updatePreferences later_env shop_db units_only)) 2
             = Some p3 \<and> distinct (unit_keys later_env (units p3)) \<and> unique_keys later_env p3"
    using duplicate_keys_rejected [where req = units_only and env = later_env
        and store = shop_db, THEN conjunct2, THEN conjunct2, THEN conjunct1]
      e(1) l units_only_fields shop_db_preferences(1) default_preferences_unique
    by auto
  have g: "all_keys_unique later_env john_db \<and>
    (\<exists>p3. stored_preferences (snd (updatePreferences later_env john_db units_only)) 2 = Some p3 \<and>
         unique_keys later_env p3)"
    using duplicate_keys_rejected [where req = units_only and env = later_env
        and store = john_db, THEN conjunct2, THEN conjunct2, THEN conjunct2]
      e(2) l john_db_reachable units_only_fields
    by auto
  from rk a b c d e l f g john_db_reachable show ?thesis by blast
qed

text \<open>
  Claim C3 as stated fails: when the request also carries categories that are not an
  array, the units with a repeated abbreviation are never examined, and the response
  names the categories instead of listing the repeated abbreviation.
\<close>

theorem duplicate_units_after_bad_categories:
  "pr_units bad_categories_duplicate_units =
     JArr [JObj [(''name'', JStr ''Box''), (''abbreviation'', JStr ''bx'')],
           JObj [(''name'', JStr ''Pack''), (''abbreviation'', JStr ''BX'')]] \<and>
   repeats_key (unitKey later_env) (pr_units bad_categories_duplicate_units) \<and>
   fst (updatePreferences later_env shop_db bad_categories_duplicate_units) =
     failure 400 ''Categories must be an array'' \<and>
   failure 400 ''Categories must be an array'' \<noteq>
     failure 400 ''Duplicate unit abbreviations found: BX''"
proof -
  have a: "pr_units bad_categories_duplicate_units =
     JArr [JObj [(''name'', JStr ''Box''), (''abbreviation'', JStr ''bx'')],
           JObj [(''name'', JStr ''Pack''), (''abbreviation'', JStr ''BX'')]]"
    by (simp add: bad_categories_duplicate_units_def duplicate_units_def)
  have b: "repeats_key (unitKey later_env) (pr_units bad_categories_duplicate_units)"
    using defined_keys_mapE [OF duplicate_units_keys]
    by (simp add: a repeats_key_def map_filter_simps)
  have c: "fst (updatePreferences later_env shop_db bad_categories_duplicate_units) =
     failure 400 ''Categories must be an array''"
    using updatePreferences_found [of bad_categories_duplicate_units 2 later_env shop_db,
        OF _ _ shop_db_business(1)]
    by (simp add: bad_categories_duplicate_units_def duplicate_units_def later_env_fields
          update_categories_def process_categories_def process_collection_def)
  have d: "failure 400 ''Categories must be an array'' \<noteq>
     failure 400 ''Duplicate unit abbreviations found: BX''"
    by (simp add: failure_def)
  from a b c d show ?thesis by blast
qed

end
